theory Spec2Isabelle
  imports Main "HOL-Library.Word"
begin

section \<open>Errors\<close>

text \<open>
  Go errors are values. \<open>New msg\<close> is \<^verbatim>\<open>errors.New(msg)\<close>; \<open>Errorf msg e\<close> is
  \<^verbatim>\<open>fmt.Errorf(format, ...)\<close> with exactly one \<^verbatim>\<open>%w\<close> verb wrapping \<open>e\<close>: \<open>msg\<close> is the
  format string with its \<^verbatim>\<open>%s\<close> verbs already substituted and the \<^verbatim>\<open>%w\<close> left in place.
\<close>

datatype error = New string | Errorf string error

text \<open>
  \<^verbatim>\<open>errors.Is\<close>: the target occurs somewhere in the chain of wrapped errors. Errors are
  compared by value here, where Go compares them by identity: two errors made by
  \<^verbatim>\<open>errors.New\<close> with the same text are one error in this model.
\<close>

fun errors_Is :: "error \<Rightarrow> error \<Rightarrow> bool" where
  "errors_Is (New m) target = (New m = target)"
| "errors_Is (Errorf m e) target = (Errorf m e = target \<or> errors_Is e target)"

definition ErrValidation :: error where
  "ErrValidation = New ''validation failed''"

section \<open>Asset model (package favorites)\<close>

type_synonym AssetType = string

definition AssetTypeChart :: AssetType where "AssetTypeChart = ''chart''"
definition AssetTypeInsight :: AssetType where "AssetTypeInsight = ''insight''"
definition AssetTypeAudience :: AssetType where "AssetTypeAudience = ''audience''"

record BaseAsset =
  ID :: string
  UserID :: string
  Type :: AssetType
  Name :: string
  Description :: string

record Chart = BaseAsset +
  XAxis :: string
  YAxis :: string

record Insight = BaseAsset +
  Content :: string

record AudienceRules =
  Gender :: string
  Country :: string
  AgeMin :: int
  AgeMax :: int

record Audience = BaseAsset +
  Rules :: AudienceRules

text \<open>
  The sealed interface \<^verbatim>\<open>Asset\<close>: a value of one of the three concrete struct types.
\<close>

datatype Asset = AssetChart Chart | AssetInsight Insight | AssetAudience Audience

fun GetID :: "Asset \<Rightarrow> string" where
  "GetID (AssetChart c) = ID c"
| "GetID (AssetInsight i) = ID i"
| "GetID (AssetAudience a) = ID a"

fun GetUserID :: "Asset \<Rightarrow> string" where
  "GetUserID (AssetChart c) = UserID c"
| "GetUserID (AssetInsight i) = UserID i"
| "GetUserID (AssetAudience a) = UserID a"

fun GetType :: "Asset \<Rightarrow> AssetType" where
  "GetType (AssetChart c) = Type c"
| "GetType (AssetInsight i) = Type i"
| "GetType (AssetAudience a) = Type a"

subsection \<open>Validation\<close>

definition ValidateCommon :: "'a BaseAsset_scheme \<Rightarrow> AssetType \<Rightarrow> error option" where
  "ValidateCommon b expectedType =
     (if ID b = [] then Some (Errorf ''%w: id is required'' ErrValidation)
      else if Name b = [] then Some (Errorf ''%w: name is required'' ErrValidation)
      else if Type b \<noteq> expectedType then
        Some (Errorf (''%w: invalid asset type: expected '' @ expectedType @ '', got '' @ Type b)
                ErrValidation)
      else None)"

definition Chart_Validate :: "Chart \<Rightarrow> error option" where
  "Chart_Validate c =
     (case ValidateCommon c AssetTypeChart of
        Some err \<Rightarrow> Some err
      | None \<Rightarrow>
          if XAxis c = [] \<and> YAxis c = [] then
            Some (Errorf ''%w: chart requires at least one axis to be defined'' ErrValidation)
          else None)"

definition Insight_Validate :: "Insight \<Rightarrow> error option" where
  "Insight_Validate i =
     (case ValidateCommon i AssetTypeInsight of
        Some err \<Rightarrow> Some err
      | None \<Rightarrow>
          if Content i = [] then
            Some (Errorf ''%w: content is required for Insight'' ErrValidation)
          else None)"

definition Audience_Validate :: "Audience \<Rightarrow> error option" where
  "Audience_Validate a =
     (case ValidateCommon a AssetTypeAudience of
        Some err \<Rightarrow> Some err
      | None \<Rightarrow>
          if Country (Rules a) = [] then
            Some (Errorf ''%w: country rule is required for Audience'' ErrValidation)
          else if AgeMin (Rules a) < 0 \<or> AgeMax (Rules a) < 0 then
            Some (Errorf ''%w: age limits cannot be negative'' ErrValidation)
          else if AgeMax (Rules a) > 0 \<and> AgeMin (Rules a) > AgeMax (Rules a) then
            Some (Errorf ''%w: age_min cannot be greater than age_max'' ErrValidation)
          else None)"

text \<open>\<^verbatim>\<open>asset.Validate()\<close> on the interface dispatches on the concrete type.\<close>

fun Validate :: "Asset \<Rightarrow> error option" where
  "Validate (AssetChart c) = Chart_Validate c"
| "Validate (AssetInsight i) = Insight_Validate i"
| "Validate (AssetAudience a) = Audience_Validate a"

section \<open>Ports (package ports)\<close>

type_synonym bytes = string

text \<open>
  One element of an \<^verbatim>\<open>iter.Seq2[favorites.Asset, error]\<close>: \<open>Inl err\<close> is the pair
  \<^verbatim>\<open>(nil, err)\<close>, \<open>Inr a\<close> is \<^verbatim>\<open>(a, nil)\<close>.
\<close>

type_synonym item = "error + Asset"

text \<open>
  The service is written against three interfaces (\<^verbatim>\<open>FavoriteRepository\<close>, \<^verbatim>\<open>Cache\<close>,
  \<^verbatim>\<open>Enricher\<close>) and uses the clock and \<^verbatim>\<open>encoding/json\<close>. Their behaviour is a parameter:
  every operation is a function of the state \<open>'w\<close> of the outside world that returns its
  result and the new state. A Go \<^verbatim>\<open>map[string][]byte\<close> is an association list read with
  \<open>map_of\<close>; the iterator a repository returns is the list of the elements it produces when
  it is drained.
\<close>

record 'w ports =
  repo_Save :: "Asset \<Rightarrow> 'w \<Rightarrow> error option \<times> 'w"
  repo_FindByID :: "string \<Rightarrow> 'w \<Rightarrow> (error + Asset) \<times> 'w"
  repo_FindAll :: "int \<Rightarrow> int \<Rightarrow> 'w \<Rightarrow> (error + item list) \<times> 'w"
  repo_FindByUser :: "string \<Rightarrow> int \<Rightarrow> int \<Rightarrow> 'w \<Rightarrow> (error + item list) \<times> 'w"
  repo_Delete :: "string \<Rightarrow> 'w \<Rightarrow> error option \<times> 'w"
  repo_UpdateDescription :: "string \<Rightarrow> string \<Rightarrow> 'w \<Rightarrow> (error + Asset) \<times> 'w"
  cache_AddToSet :: "string \<Rightarrow> int \<Rightarrow> 'w \<Rightarrow> error option \<times> 'w"
  cache_Set :: "string \<Rightarrow> bytes \<Rightarrow> 'w \<Rightarrow> error option \<times> 'w"
  cache_GetBatch :: "string list \<Rightarrow> 'w \<Rightarrow> (error + (string \<times> bytes) list) \<times> 'w"
  cache_GetIdsFromSet :: "int \<Rightarrow> int \<Rightarrow> 'w \<Rightarrow> (error + string list) \<times> 'w"
  cache_Remove :: "string \<Rightarrow> 'w \<Rightarrow> error option \<times> 'w"
  enricher_Enrich :: "Asset \<Rightarrow> 'w \<Rightarrow> error option \<times> 'w"
  time_Now_Unix :: "'w \<Rightarrow> int"
  json_Marshal :: "Asset \<Rightarrow> error + bytes"
  json_Unmarshal_BaseAsset :: "bytes \<Rightarrow> error + BaseAsset"
  json_Unmarshal_Chart :: "bytes \<Rightarrow> error + Chart"
  json_Unmarshal_Insight :: "bytes \<Rightarrow> error + Insight"
  json_Unmarshal_Audience :: "bytes \<Rightarrow> error + Audience"

section \<open>Observable behaviour: the trace\<close>

text \<open>
  Every call the service makes on a port, every log record it writes and every element it
  hands to the consumer of a sequence is appended to a trace, in the order of execution.
  A port call is recorded with its identifying arguments (the score of \<^verbatim>\<open>AddToSet\<close> is
  passed to the port and not recorded). Tracing spans have no effect on results and
  are left out.
\<close>

datatype level = Info | Warn | Error

datatype event =
    RepoSave Asset
  | RepoFindByID string
  | RepoFindAll int int
  | RepoFindByUser string int int
  | RepoDelete string
  | RepoUpdateDescription string string
  | CacheAddToSet string
  | CacheSet string bytes
  | CacheGetBatch "string list"
  | CacheGetIdsFromSet int int
  | CacheRemove string
  | EnricherEnrich Asset
  | Log level string
  | Yield item

record 'w state =
  world :: 'w
  trace :: "event list"

fun is_Log :: "event \<Rightarrow> bool" where
  "is_Log (Log l m) = True"
| "is_Log e = False"

text \<open>The trace without the log records: port calls and yielded elements.\<close>

definition calls :: "event list \<Rightarrow> event list" where
  "calls t = filter (\<lambda>e. \<not> is_Log e) t"

fun yielded :: "event list \<Rightarrow> item list" where
  "yielded [] = []"
| "yielded (Yield x # t) = x # yielded t"
| "yielded (e # t) = yielded t"

definition call :: "event \<Rightarrow> ('w \<Rightarrow> 'r \<times> 'w) \<Rightarrow> 'w state \<Rightarrow> 'r \<times> 'w state" where
  "call e f s = (case f (world s) of (r, w') \<Rightarrow> (r, \<lparr>world = w', trace = trace s @ [e]\<rparr>))"

definition logf :: "level \<Rightarrow> string \<Rightarrow> 'w state \<Rightarrow> 'w state" where
  "logf l m s = s\<lparr>trace := trace s @ [Log l m]\<rparr>"

text \<open>
  The consumer of a sequence is the \<^verbatim>\<open>yield\<close> callback of Go's range-over-func: it
  receives an element and answers whether it wants more. A consumer is given by its answer
  as a function of all the elements it has received so far.
\<close>

type_synonym consumer = "item list \<Rightarrow> bool"

definition yield :: "consumer \<Rightarrow> item \<Rightarrow> 'w state \<Rightarrow> bool \<times> 'w state" where
  "yield k x s = (let t = trace s @ [Yield x] in (k (yielded t), s\<lparr>trace := t\<rparr>))"

section \<open>The orchestration service (package service)\<close>

definition updateCache :: "'w ports \<Rightarrow> Asset \<Rightarrow> 'w state \<Rightarrow> 'w state" where
  "updateCache P asset s =
     (case json_Marshal P asset of
        Inl err \<Rightarrow> logf Error ''failed to marshal asset for cache'' s
      | Inr data \<Rightarrow>
          let score = time_Now_Unix P (world s);
              (r1, s1) = call (CacheAddToSet (GetID asset)) (cache_AddToSet P (GetID asset) score) s;
              s2 = (case r1 of Some err \<Rightarrow> logf Error ''failed to update cache set'' s1
                    | None \<Rightarrow> s1);
              (r2, s3) = call (CacheSet (GetID asset) data) (cache_Set P (GetID asset) data) s2
          in (case r2 of Some err \<Rightarrow> logf Error ''failed to set cache data'' s3
              | None \<Rightarrow> s3))"

text \<open>
  \<^verbatim>\<open>Enrich\<close> receives the asset by value and returns only an error, so the asset returned
  is the asset given; the error returned is always \<^verbatim>\<open>nil\<close>.
\<close>

definition enrichAndSaveCache ::
  "'w ports \<Rightarrow> Asset \<Rightarrow> 'w state \<Rightarrow> (Asset \<times> error option) \<times> 'w state" where
  "enrichAndSaveCache P asset s =
     (let (r, s1) = call (EnricherEnrich asset) (enricher_Enrich P asset) s;
          s2 = (case r of
                  Some err \<Rightarrow> logf Warn ''enrichment failed, caching unenriched asset'' s1
                | None \<Rightarrow> s1)
      in ((asset, None), updateCache P asset s2))"

definition Save :: "'w ports \<Rightarrow> Asset \<Rightarrow> 'w state \<Rightarrow> error option \<times> 'w state" where
  "Save P asset s =
     (let s0 = logf Info ''saving asset'' s in
      case Validate asset of
        Some err \<Rightarrow> (Some (Errorf ''validation failed: %w'' err), s0)
      | None \<Rightarrow>
          let (r, s1) = call (RepoSave asset) (repo_Save P asset) s0 in
          (case r of
             Some err \<Rightarrow> (Some (Errorf ''failed to save to db: %w'' err), s1)
           | None \<Rightarrow>
               let (res, s2) = enrichAndSaveCache P asset s1 in
               (case snd res of
                  Some err \<Rightarrow> (None, logf Warn ''failed to enrich and cache on save'' s2)
                | None \<Rightarrow> (None, s2))))"

definition unmarshal :: "'w ports \<Rightarrow> bytes \<Rightarrow> error + Asset" where
  "unmarshal P data =
     (case json_Unmarshal_BaseAsset P data of
        Inl err \<Rightarrow> Inl err
      | Inr base \<Rightarrow>
          if Type base = AssetTypeChart then
            (case json_Unmarshal_Chart P data of Inl err \<Rightarrow> Inl err | Inr c \<Rightarrow> Inr (AssetChart c))
          else if Type base = AssetTypeInsight then
            (case json_Unmarshal_Insight P data of Inl err \<Rightarrow> Inl err
             | Inr i \<Rightarrow> Inr (AssetInsight i))
          else if Type base = AssetTypeAudience then
            (case json_Unmarshal_Audience P data of Inl err \<Rightarrow> Inl err
             | Inr a \<Rightarrow> Inr (AssetAudience a))
          else Inl (New (''unknown type: '' @ Type base)))"

text \<open>\<^verbatim>\<open>m[key]\<close> on a Go map: the zero value (\<^verbatim>\<open>nil\<close> bytes) when the key is absent.\<close>

definition index_map :: "(string \<times> bytes) list \<Rightarrow> string \<Rightarrow> bytes" where
  "index_map m key = (case map_of m key of None \<Rightarrow> [] | Some d \<Rightarrow> d)"

text \<open>A pair \<^verbatim>\<open>(asset, err)\<close> returned to a caller that tests \<^verbatim>\<open>err != nil\<close> first.\<close>

definition result_of :: "Asset \<times> error option \<Rightarrow> error + Asset" where
  "result_of r = (case snd r of Some err \<Rightarrow> Inl err | None \<Rightarrow> Inr (fst r))"

definition FindByID :: "'w ports \<Rightarrow> string \<Rightarrow> 'w state \<Rightarrow> (error + Asset) \<times> 'w state" where
  "FindByID P aid s =
     (let (b, s1) = call (CacheGetBatch [aid]) (cache_GetBatch P [aid]) s;
          hit = (case b of Inl err \<Rightarrow> None
                 | Inr batch \<Rightarrow> if batch \<noteq> [] then Some batch else None)
      in case hit of
           Some batch \<Rightarrow> (unmarshal P (index_map batch aid), s1)
         | None \<Rightarrow>
             let (r, s2) = call (RepoFindByID aid) (repo_FindByID P aid) s1 in
             (case r of
                Inl err \<Rightarrow> (Inl err, s2)
              | Inr asset \<Rightarrow>
                  let (res, s3) = enrichAndSaveCache P asset s2 in (result_of res, s3)))"

definition forbidden :: error where
  "forbidden = New ''forbidden: you do not own this asset''"

definition Delete :: "'w ports \<Rightarrow> string \<Rightarrow> string \<Rightarrow> 'w state \<Rightarrow> error option \<times> 'w state" where
  "Delete P aid userID s =
     (let (r, s1) = call (RepoFindByID aid) (repo_FindByID P aid) s in
      case r of
        Inl err \<Rightarrow> (Some err, s1)
      | Inr asset \<Rightarrow>
          if GetUserID asset \<noteq> userID then (Some forbidden, s1)
          else
            let (d, s2) = call (RepoDelete aid) (repo_Delete P aid) s1 in
            (case d of
               Some err \<Rightarrow> (Some err, s2)
             | None \<Rightarrow> call (CacheRemove aid) (cache_Remove P aid) s2))"

definition UpdateDescription ::
  "'w ports \<Rightarrow> string \<Rightarrow> string \<Rightarrow> string \<Rightarrow> 'w state \<Rightarrow> (error + Asset) \<times> 'w state" where
  "UpdateDescription P aid description userID s =
     (let (r, s1) = call (RepoFindByID aid) (repo_FindByID P aid) s in
      case r of
        Inl err \<Rightarrow> (Inl err, s1)
      | Inr asset \<Rightarrow>
          if GetUserID asset \<noteq> userID then (Inl forbidden, s1)
          else
            let (u, s2) = call (RepoUpdateDescription aid description)
                            (repo_UpdateDescription P aid description) s1 in
            (case u of
               Inl err \<Rightarrow> (Inl err, s2)
             | Inr updatedAsset \<Rightarrow>
                 let (c, s3) = call (CacheRemove aid) (cache_Remove P aid) s2 in
                 (case c of
                    Some err \<Rightarrow>
                      (Inr updatedAsset, logf Error ''failed to invalidate cache after update'' s3)
                  | None \<Rightarrow> (Inr updatedAsset, s3))))"

subsection \<open>Streaming\<close>

text \<open>
  Go's \<^verbatim>\<open>int\<close> is a 64-bit two's-complement integer on the platforms the service is built
  for: \<^verbatim>\<open>offset + limit - 1\<close> wraps around.
\<close>

definition wrap64 :: "int \<Rightarrow> int" where
  "wrap64 n = sint (word_of_int n :: 64 word)"

definition batchSize :: nat where
  "batchSize = 100"

text \<open>
  The body of the loop over the ids of one chunk. The result is \<open>False\<close> when the body
  executes \<^verbatim>\<open>return\<close> (the iterator function ends) and \<open>True\<close> when the loop goes on to
  the next id.
\<close>

definition chunkBody ::
  "'w ports \<Rightarrow> consumer \<Rightarrow> (string \<times> bytes) list \<Rightarrow> string \<Rightarrow> 'w state \<Rightarrow> bool \<times> 'w state"
  where
  "chunkBody P k dataMap aid s =
     (case map_of dataMap aid of
        None \<Rightarrow>
          let s1 = logf Warn ''cache inconsistency detected (missing data), repairing from db'' s;
              (r, s2) = call (RepoFindByID aid) (repo_FindByID P aid) s1
          in (case r of
                Inl err \<Rightarrow>
                  (False,
                   snd (yield k (Inl (Errorf (''failed to repair cache for id '' @ aid @ '': %w'') err))
                          s2))
              | Inr asset \<Rightarrow>
                  let (res, s3) = enrichAndSaveCache P asset s2
                  in yield k (Inr (fst res)) s3)
      | Some data \<Rightarrow>
          (case unmarshal P data of
             Inl err \<Rightarrow>
               (False,
                snd (yield k (Inl (Errorf (''failed to unmarshal cached asset '' @ aid @ '': %w'') err))
                       s))
           | Inr asset \<Rightarrow> yield k (Inr asset) s))"

text \<open>
  The loop over the ids of one chunk: \<open>True\<close> when it has run to its end, \<open>False\<close> when
  its body has returned from the iterator function.
\<close>

fun chunkLoop ::
  "'w ports \<Rightarrow> consumer \<Rightarrow> (string \<times> bytes) list \<Rightarrow> string list \<Rightarrow> 'w state \<Rightarrow> bool \<times> 'w state"
  where
  "chunkLoop P k dataMap [] s = (True, s)"
| "chunkLoop P k dataMap (aid # rest) s =
     (let (more, s') = chunkBody P k dataMap aid s
      in if more then chunkLoop P k dataMap rest s' else (False, s'))"

text \<open>\<^verbatim>\<open>ids[i:end]\<close> with \<^verbatim>\<open>end = min(i + batchSize, len(ids))\<close>.\<close>

definition chunkIds :: "string list \<Rightarrow> nat \<Rightarrow> string list" where
  "chunkIds ids i =
     (let end' = (if i + batchSize > length ids then length ids else i + batchSize)
      in take (end' - i) (drop i ids))"

text \<open>One pass of the outer loop body: fetch the chunk, then loop over its ids.\<close>

definition chunkStep :: "'w ports \<Rightarrow> consumer \<Rightarrow> string list \<Rightarrow> 'w state \<Rightarrow> bool \<times> 'w state"
  where
  "chunkStep P k chunk s =
     (let (r, s1) = call (CacheGetBatch chunk) (cache_GetBatch P chunk) s in
      case r of
        Inl err \<Rightarrow> (False, snd (yield k (Inl (Errorf ''failed to fetch cache batch: %w'' err)) s1))
      | Inr dataMap \<Rightarrow> chunkLoop P k dataMap chunk s1)"

function chunkedFrom :: "'w ports \<Rightarrow> consumer \<Rightarrow> string list \<Rightarrow> nat \<Rightarrow> 'w state \<Rightarrow> 'w state"
  where
  "chunkedFrom P k ids i s =
     (if i < length ids then
        (let (more, s') = chunkStep P k (chunkIds ids i) s
         in if more then chunkedFrom P k ids (i + batchSize) s' else s')
      else s)"
  by pat_completeness auto
termination
  by (relation "measure (\<lambda>(P, k, ids, i, s). length ids - i)") (auto simp: batchSize_def)

text \<open>
  Running the sequence \<^verbatim>\<open>chunkedCacheIterator(ctx, ids)\<close> against a consumer: the outer
  loop starts at \<^verbatim>\<open>i = 0\<close>.
\<close>

definition chunkedCacheIterator :: "'w ports \<Rightarrow> consumer \<Rightarrow> string list \<Rightarrow> 'w state \<Rightarrow> 'w state"
  where
  "chunkedCacheIterator P k ids s = chunkedFrom P k ids 0 s"

text \<open>
  Running \<^verbatim>\<open>cacheIterator(ctx, input)\<close> against a consumer; \<open>input\<close> is what the
  repository's iterator produces.
\<close>

fun cacheIterator :: "'w ports \<Rightarrow> consumer \<Rightarrow> item list \<Rightarrow> 'w state \<Rightarrow> 'w state" where
  "cacheIterator P k [] s = s"
| "cacheIterator P k (Inl err # rest) s = snd (yield k (Inl err) s)"
| "cacheIterator P k (Inr asset # rest) s =
     (let (res1, s1) = enrichAndSaveCache P asset s;
          s2 = (case snd res1 of
                  Some err \<Rightarrow> logf Warn ''failed to enrich asset during stream'' s1
                | None \<Rightarrow> s1);
          (res2, s3) = enrichAndSaveCache P asset s2;
          (more, s4) = yield k (Inr (fst res2)) s3
      in if more then cacheIterator P k rest s4 else s4)"

text \<open>
  What \<^verbatim>\<open>FindAll\<close> and \<^verbatim>\<open>FindAllByUser\<close> return: a sequence that has not run yet. It is
  one of the service's two iterators over the data captured when it was built, or the
  repository's own iterator.
\<close>

datatype Seq2 = ChunkedCacheIterator "string list" | CacheIterator "item list"
  | RepoIterator "item list"

definition FindAll :: "'w ports \<Rightarrow> int \<Rightarrow> int \<Rightarrow> 'w state \<Rightarrow> (error + Seq2) \<times> 'w state" where
  "FindAll P limit offset s =
     (let start = offset;
          stop = wrap64 (offset + limit - 1);
          (r, s1) = call (CacheGetIdsFromSet start stop) (cache_GetIdsFromSet P start stop) s;
          hit = (case r of Inl err \<Rightarrow> None | Inr ids \<Rightarrow> if ids \<noteq> [] then Some ids else None)
      in case hit of
           Some ids \<Rightarrow>
             (Inr (ChunkedCacheIterator ids), logf Info ''cache hit for favorites list (chunked)'' s1)
         | None \<Rightarrow>
             let s2 = logf Info ''streaming favorites from db'' s1;
                 (rr, s3) = call (RepoFindAll limit offset) (repo_FindAll P limit offset) s2
             in (case rr of
                   Inl err \<Rightarrow> (Inl err, s3)
                 | Inr repoIter \<Rightarrow> (Inr (CacheIterator repoIter), s3)))"

definition FindAllByUser ::
  "'w ports \<Rightarrow> string \<Rightarrow> int \<Rightarrow> int \<Rightarrow> 'w state \<Rightarrow> (error + Seq2) \<times> 'w state" where
  "FindAllByUser P userID limit offset s =
     (let (r, s1) = call (RepoFindByUser userID limit offset)
                      (repo_FindByUser P userID limit offset) s
      in (case r of Inl err \<Rightarrow> (Inl err, s1) | Inr it \<Rightarrow> (Inr (RepoIterator it), s1)))"

text \<open>
  A repository iterator hands its elements to the consumer until the consumer stops or an
  error element has been handed over.
\<close>

fun repoIterator :: "consumer \<Rightarrow> item list \<Rightarrow> 'w state \<Rightarrow> 'w state" where
  "repoIterator k [] s = s"
| "repoIterator k (Inl err # rest) s = snd (yield k (Inl err) s)"
| "repoIterator k (Inr asset # rest) s =
     (let (more, s1) = yield k (Inr asset) s in if more then repoIterator k rest s1 else s1)"

text \<open>\<^verbatim>\<open>for asset, err := range seq { ... }\<close> with the loop body given by the consumer.\<close>

fun range_Seq2 :: "'w ports \<Rightarrow> consumer \<Rightarrow> Seq2 \<Rightarrow> 'w state \<Rightarrow> 'w state" where
  "range_Seq2 P k (ChunkedCacheIterator ids) s = chunkedCacheIterator P k ids s"
| "range_Seq2 P k (CacheIterator input) s = cacheIterator P k input s"
| "range_Seq2 P k (RepoIterator input) s = repoIterator k input s"

section \<open>What the specification says about validation\<close>

text \<open>The discriminator that belongs to each concrete variant.\<close>

fun variant_type :: "Asset \<Rightarrow> AssetType" where
  "variant_type (AssetChart c) = AssetTypeChart"
| "variant_type (AssetInsight i) = AssetTypeInsight"
| "variant_type (AssetAudience a) = AssetTypeAudience"

text \<open>
  The name and the description of an asset: fields of the embedded \<^verbatim>\<open>BaseAsset\<close>, which the
  interface has no method for.
\<close>

fun GetName :: "Asset \<Rightarrow> string" where
  "GetName (AssetChart c) = Name c"
| "GetName (AssetInsight i) = Name i"
| "GetName (AssetAudience a) = Name a"

fun GetDescription :: "Asset \<Rightarrow> string" where
  "GetDescription (AssetChart c) = Description c"
| "GetDescription (AssetInsight i) = Description i"
| "GetDescription (AssetAudience a) = Description a"

text \<open>Shared fields: non-empty id, non-empty name, discriminator matching the variant.\<close>

definition shared_fields_valid :: "Asset \<Rightarrow> bool" where
  "shared_fields_valid a = (GetID a \<noteq> [] \<and> GetName a \<noteq> [] \<and> GetType a = variant_type a)"

text \<open>
  The variant rules in the specification's words. An age bound that is \<open>0\<close> is not set
  (the field is omitted when zero).
\<close>

fun variant_rule :: "Asset \<Rightarrow> bool" where
  "variant_rule (AssetChart c) = (XAxis c \<noteq> [] \<or> YAxis c \<noteq> [])"
| "variant_rule (AssetInsight i) = (Content i \<noteq> [])"
| "variant_rule (AssetAudience a) =
     (Country (Rules a) \<noteq> [] \<and> 0 \<le> AgeMin (Rules a) \<and> 0 \<le> AgeMax (Rules a) \<and>
      (AgeMax (Rules a) = 0 \<or> AgeMin (Rules a) \<le> AgeMax (Rules a)))"

section \<open>What the specification says about the cache\<close>

text \<open>
  The write-through of one asset: an index add and a blob set for the asset's id, with the
  serialized asset as the blob. Nothing is written when the asset cannot be serialized.
\<close>

definition cache_writes :: "'w ports \<Rightarrow> Asset \<Rightarrow> event list" where
  "cache_writes P a =
     (case json_Marshal P a of
        Inl err \<Rightarrow> []
      | Inr data \<Rightarrow> [CacheAddToSet (GetID a), CacheSet (GetID a) data])"

text \<open>A cache miss for an id: the batch fetch failed, or the id is absent from its result.\<close>

definition cache_miss :: "error + (string \<times> bytes) list \<Rightarrow> string \<Rightarrow> bool" where
  "cache_miss b aid = (case b of Inl err \<Rightarrow> True | Inr batch \<Rightarrow> map_of batch aid = None)"

text \<open>
  The contract of \<^verbatim>\<open>getBatch(ids)\<close>: a partial mapping of the requested ids, so every
  key of the result is one of the ids asked for (the Redis adapter fills
  \<^verbatim>\<open>result[ids[i]]\<close> only).
\<close>

definition keys_within :: "error + (string \<times> bytes) list \<Rightarrow> string list \<Rightarrow> bool" where
  "keys_within b ids =
     (case b of Inl err \<Rightarrow> True | Inr batch \<Rightarrow> list_all (\<lambda>kv. fst kv \<in> set ids) batch)"

text \<open>
  The state in which the chunked iteration, started in \<open>s\<close>, arrives at its \<open>n\<close>-th chunk
  (the chunk that starts at index \<open>n * batchSize\<close>): every earlier chunk has been fetched
  and its loop has run to the end. \<open>None\<close> when the iteration ends before.
\<close>

fun reach_chunk ::
  "'w ports \<Rightarrow> consumer \<Rightarrow> string list \<Rightarrow> 'w state \<Rightarrow> nat \<Rightarrow> 'w state option" where
  "reach_chunk P k ids s 0 = Some s"
| "reach_chunk P k ids s (Suc n) =
     (case reach_chunk P k ids s n of
        None \<Rightarrow> None
      | Some s' \<Rightarrow>
          if n * batchSize < length ids then
            (let (more, s'') = chunkStep P k (chunkIds ids (n * batchSize)) s'
             in if more then Some s'' else None)
          else None)"


text \<open>
  The effect of the write-through of one asset on the world: the index add for the asset's
  id with the clock's reading as score, then the blob set with the serialized asset. The
  world is untouched when the asset cannot be serialized.
\<close>

definition write_through :: "'w ports \<Rightarrow> Asset \<Rightarrow> 'w \<Rightarrow> 'w" where
  "write_through P a w =
     (case json_Marshal P a of
        Inl err \<Rightarrow> w
      | Inr data \<Rightarrow>
          snd (cache_Set P (GetID a) data
                 (snd (cache_AddToSet P (GetID a) (time_Now_Unix P w) w))))"

text \<open>The effect of one enrichment followed by the write-through.\<close>

definition enrich_write_through :: "'w ports \<Rightarrow> Asset \<Rightarrow> 'w \<Rightarrow> 'w" where
  "enrich_write_through P a w = write_through P a (snd (enricher_Enrich P a w))"


section \<open>In-memory collaborators\<close>

text \<open>
  A store, a cache and an enricher held in memory. They stand in for PostgreSQL, Redis and
  the enrichment service the way the mocks of \<^verbatim>\<open>favorite_test.go\<close> do, and serve to run
  the service on concrete inputs. Each of the three can be switched to fail every call.
  Two counters record how often the enricher and the two write operations of the cache
  have been invoked, as the call counts of a mock do.
\<close>

record mem =
  rows :: "Asset list"
  zset :: "(string \<times> int) list"
  blobs :: "(string \<times> bytes) list"
  clock :: int
  store_err :: "error option"
  cache_err :: "error option"
  enricher_err :: "error option"
  enrich_calls :: nat
  write_calls :: nat

fun with_Description :: "string \<Rightarrow> Asset \<Rightarrow> Asset" where
  "with_Description d (AssetChart c) = AssetChart (c\<lparr>Description := d\<rparr>)"
| "with_Description d (AssetInsight i) = AssetInsight (i\<lparr>Description := d\<rparr>)"
| "with_Description d (AssetAudience a) = AssetAudience (a\<lparr>Description := d\<rparr>)"

definition mem_repo_Save :: "Asset \<Rightarrow> mem \<Rightarrow> error option \<times> mem" where
  "mem_repo_Save a w =
     (case store_err w of
        Some e \<Rightarrow> (Some (Errorf ''failed to insert asset: %w'' e), w)
      | None \<Rightarrow> (None, w\<lparr>rows := a # rows w\<rparr>))"

definition mem_repo_FindByID :: "string \<Rightarrow> mem \<Rightarrow> (error + Asset) \<times> mem" where
  "mem_repo_FindByID aid w =
     (case store_err w of
        Some e \<Rightarrow> (Inl (Errorf ''failed to fetch asset: %w'' e), w)
      | None \<Rightarrow>
          (case find (\<lambda>a. GetID a = aid) (rows w) of
             None \<Rightarrow> (Inl (New ''asset not found''), w)
           | Some a \<Rightarrow> (Inr a, w)))"

text \<open>\<^verbatim>\<open>LIMIT limit OFFSET offset\<close> over the rows, most recent first.\<close>

definition mem_repo_FindAll :: "int \<Rightarrow> int \<Rightarrow> mem \<Rightarrow> (error + item list) \<times> mem" where
  "mem_repo_FindAll limit offset w =
     (case store_err w of
        Some e \<Rightarrow> (Inl (Errorf ''failed to query assets: %w'' e), w)
      | None \<Rightarrow>
          if limit < 0 \<or> offset < 0 then
            (Inl (Errorf ''failed to query assets: %w'' (New ''LIMIT and OFFSET must not be negative'')), w)
          else (Inr (map Inr (take (nat limit) (drop (nat offset) (rows w)))), w))"

definition mem_repo_FindByUser ::
  "string \<Rightarrow> int \<Rightarrow> int \<Rightarrow> mem \<Rightarrow> (error + item list) \<times> mem" where
  "mem_repo_FindByUser userID limit offset w =
     (case store_err w of
        Some e \<Rightarrow> (Inl (Errorf ''failed to query favorites: %w'' e), w)
      | None \<Rightarrow>
          if limit < 0 \<or> offset < 0 then
            (Inl (Errorf ''failed to query favorites: %w''
                    (New ''LIMIT and OFFSET must not be negative'')), w)
          else
            (Inr (map Inr (take (nat limit) (drop (nat offset)
                    (filter (\<lambda>a. GetUserID a = userID) (rows w))))), w))"

definition mem_repo_Delete :: "string \<Rightarrow> mem \<Rightarrow> error option \<times> mem" where
  "mem_repo_Delete aid w =
     (case store_err w of
        Some e \<Rightarrow> (Some (Errorf ''failed to delete asset: %w'' e), w)
      | None \<Rightarrow>
          (case find (\<lambda>a. GetID a = aid) (rows w) of
             None \<Rightarrow> (Some (New ''asset not found''), w)
           | Some a \<Rightarrow> (None, w\<lparr>rows := filter (\<lambda>a. GetID a \<noteq> aid) (rows w)\<rparr>)))"

definition mem_repo_UpdateDescription ::
  "string \<Rightarrow> string \<Rightarrow> mem \<Rightarrow> (error + Asset) \<times> mem" where
  "mem_repo_UpdateDescription aid d w =
     (case store_err w of
        Some e \<Rightarrow> (Inl (Errorf ''failed to update description: %w'' e), w)
      | None \<Rightarrow>
          (case find (\<lambda>a. GetID a = aid) (rows w) of
             None \<Rightarrow> (Inl (New ''asset not found''), w)
           | Some a \<Rightarrow>
               (Inr (with_Description d a),
                w\<lparr>rows := map (\<lambda>x. if GetID x = aid then with_Description d x else x) (rows w)\<rparr>)))"

text \<open>
  The ordered index is a list of (id, score) pairs, highest score first; adding an id
  replaces its entry.
\<close>

definition zadd :: "string \<Rightarrow> int \<Rightarrow> (string \<times> int) list \<Rightarrow> (string \<times> int) list" where
  "zadd aid score z =
     (let z' = filter (\<lambda>p. fst p \<noteq> aid) z
      in takeWhile (\<lambda>p. score < snd p) z' @ (aid, score) # dropWhile (\<lambda>p. score < snd p) z')"

text \<open>
  Modelled from the spec: \<^verbatim>\<open>getIndexRange(start, stop)\<close> is the most-recent-first slice of
  the ordered index, with 0-based inclusive bounds, and \<^verbatim>\<open>stop = -1\<close> means "to the end".
  The adapter passes both bounds to Redis \<^verbatim>\<open>ZREVRANGE\<close> unchanged; the server, which is
  not part of the repository, counts a negative bound from the end of the index, clamps
  the bounds to the index and returns nothing when the range is empty.
\<close>

definition zrevrange :: "'a list \<Rightarrow> int \<Rightarrow> int \<Rightarrow> 'a list" where
  "zrevrange xs start stop =
     (let n = int (length xs);
          start1 = (if start < 0 then n + start else start);
          stop1 = (if stop < 0 then n + stop else stop);
          start2 = (if start1 < 0 then 0 else start1)
      in if stop1 < start2 \<or> n \<le> start2 then []
         else let stop2 = (if n \<le> stop1 then n - 1 else stop1)
              in take (nat (stop2 - start2 + 1)) (drop (nat start2) xs))"

definition mem_cache_AddToSet :: "string \<Rightarrow> int \<Rightarrow> mem \<Rightarrow> error option \<times> mem" where
  "mem_cache_AddToSet aid score w =
     (case cache_err w of
        Some e \<Rightarrow> (Some e, w\<lparr>write_calls := Suc (write_calls w)\<rparr>)
      | None \<Rightarrow>
          (None, w\<lparr>zset := zadd aid score (zset w), write_calls := Suc (write_calls w)\<rparr>))"

definition mem_cache_Set :: "string \<Rightarrow> bytes \<Rightarrow> mem \<Rightarrow> error option \<times> mem" where
  "mem_cache_Set aid data w =
     (case cache_err w of
        Some e \<Rightarrow> (Some e, w\<lparr>write_calls := Suc (write_calls w)\<rparr>)
      | None \<Rightarrow>
          (None, w\<lparr>blobs := (aid, data) # filter (\<lambda>p. fst p \<noteq> aid) (blobs w),
                   write_calls := Suc (write_calls w)\<rparr>))"

definition mem_cache_GetBatch ::
  "string list \<Rightarrow> mem \<Rightarrow> (error + (string \<times> bytes) list) \<times> mem" where
  "mem_cache_GetBatch ids w =
     (if ids = [] then (Inr [], w)
      else case cache_err w of
        Some e \<Rightarrow> (Inl e, w)
      | None \<Rightarrow>
          (Inr (concat (map (\<lambda>aid. case map_of (blobs w) aid of None \<Rightarrow> []
                                    | Some d \<Rightarrow> [(aid, d)]) (remdups ids))), w))"

definition mem_cache_GetIdsFromSet :: "int \<Rightarrow> int \<Rightarrow> mem \<Rightarrow> (error + string list) \<times> mem"
  where
  "mem_cache_GetIdsFromSet start stop w =
     (case cache_err w of
        Some e \<Rightarrow> (Inl e, w)
      | None \<Rightarrow> (Inr (map fst (zrevrange (zset w) start stop)), w))"

definition mem_cache_Remove :: "string \<Rightarrow> mem \<Rightarrow> error option \<times> mem" where
  "mem_cache_Remove aid w =
     (case cache_err w of
        Some e \<Rightarrow> (Some e, w)
      | None \<Rightarrow>
          (None, w\<lparr>zset := filter (\<lambda>p. fst p \<noteq> aid) (zset w),
                   blobs := filter (\<lambda>p. fst p \<noteq> aid) (blobs w)\<rparr>))"

definition mem_enricher_Enrich :: "Asset \<Rightarrow> mem \<Rightarrow> error option \<times> mem" where
  "mem_enricher_Enrich a w = (enricher_err w, w\<lparr>enrich_calls := Suc (enrich_calls w)\<rparr>)"

text \<open>
  A stand-in for \<^verbatim>\<open>encoding/json\<close> on a finite table of assets and their encodings. It
  decodes the encodings of the table into the variant they were made from and refuses
  everything else, bytes of another variant included.
\<close>

type_synonym codec = "(Asset \<times> bytes) list"

definition table_Marshal :: "codec \<Rightarrow> Asset \<Rightarrow> error + bytes" where
  "table_Marshal c a =
     (case map_of c a of None \<Rightarrow> Inl (New ''json: unsupported value'') | Some d \<Rightarrow> Inr d)"

definition table_decode :: "codec \<Rightarrow> bytes \<Rightarrow> error + Asset" where
  "table_decode c d =
     (case find (\<lambda>p. snd p = d) c of
        None \<Rightarrow> Inl (New ''unexpected end of JSON input'')
      | Some p \<Rightarrow> Inr (fst p))"

definition table_Unmarshal_BaseAsset :: "codec \<Rightarrow> bytes \<Rightarrow> error + BaseAsset" where
  "table_Unmarshal_BaseAsset c d =
     (case table_decode c d of
        Inl e \<Rightarrow> Inl e
      | Inr a \<Rightarrow>
          Inr \<lparr>ID = GetID a, UserID = GetUserID a, Type = GetType a, Name = GetName a,
               Description = GetDescription a\<rparr>)"

definition table_Unmarshal_Chart :: "codec \<Rightarrow> bytes \<Rightarrow> error + Chart" where
  "table_Unmarshal_Chart c d =
     (case table_decode c d of
        Inl e \<Rightarrow> Inl e
      | Inr (AssetChart x) \<Rightarrow> Inr x
      | Inr other \<Rightarrow> Inl (New ''json: cannot unmarshal into Chart''))"

definition table_Unmarshal_Insight :: "codec \<Rightarrow> bytes \<Rightarrow> error + Insight" where
  "table_Unmarshal_Insight c d =
     (case table_decode c d of
        Inl e \<Rightarrow> Inl e
      | Inr (AssetInsight x) \<Rightarrow> Inr x
      | Inr other \<Rightarrow> Inl (New ''json: cannot unmarshal into Insight''))"

definition table_Unmarshal_Audience :: "codec \<Rightarrow> bytes \<Rightarrow> error + Audience" where
  "table_Unmarshal_Audience c d =
     (case table_decode c d of
        Inl e \<Rightarrow> Inl e
      | Inr (AssetAudience x) \<Rightarrow> Inr x
      | Inr other \<Rightarrow> Inl (New ''json: cannot unmarshal into Audience''))"

definition mem_ports :: "codec \<Rightarrow> mem ports" where
  "mem_ports c =
     \<lparr>repo_Save = mem_repo_Save,
      repo_FindByID = mem_repo_FindByID,
      repo_FindAll = mem_repo_FindAll,
      repo_FindByUser = mem_repo_FindByUser,
      repo_Delete = mem_repo_Delete,
      repo_UpdateDescription = mem_repo_UpdateDescription,
      cache_AddToSet = mem_cache_AddToSet,
      cache_Set = mem_cache_Set,
      cache_GetBatch = mem_cache_GetBatch,
      cache_GetIdsFromSet = mem_cache_GetIdsFromSet,
      cache_Remove = mem_cache_Remove,
      enricher_Enrich = mem_enricher_Enrich,
      time_Now_Unix = clock,
      json_Marshal = table_Marshal c,
      json_Unmarshal_BaseAsset = table_Unmarshal_BaseAsset c,
      json_Unmarshal_Chart = table_Unmarshal_Chart c,
      json_Unmarshal_Insight = table_Unmarshal_Insight c,
      json_Unmarshal_Audience = table_Unmarshal_Audience c\<rparr>"

subsection \<open>Sample data\<close>

definition insight1 :: Asset where
  "insight1 =
     AssetInsight \<lparr>ID = ''1'', UserID = ''u1'', Type = ''insight'', Name = ''Test'',
                   Description = [], Content = ''Knowledge''\<rparr>"

definition insight2 :: Asset where
  "insight2 =
     AssetInsight \<lparr>ID = ''2'', UserID = ''u1'', Type = ''insight'', Name = ''Test Miss'',
                   Description = [], Content = ''Knowledge''\<rparr>"

definition chart3 :: Asset where
  "chart3 =
     AssetChart \<lparr>ID = ''3'', UserID = ''u2'', Type = ''chart'', Name = ''Sales'',
                 Description = [], XAxis = ''time'', YAxis = ''value''\<rparr>"

definition insight_no_content :: Asset where
  "insight_no_content =
     AssetInsight \<lparr>ID = ''1'', UserID = ''u1'', Type = ''insight'', Name = ''Test'',
                   Description = [], Content = []\<rparr>"

definition chart_wrong_type :: Asset where
  "chart_wrong_type =
     AssetChart \<lparr>ID = ''5'', UserID = ''u1'', Type = ''insight'', Name = ''Mislabelled'',
                 Description = [], XAxis = ''time'', YAxis = ''value''\<rparr>"

definition audience_bad_ages :: Asset where
  "audience_bad_ages =
     AssetAudience \<lparr>ID = ''4'', UserID = ''u1'', Type = ''audience'', Name = ''Adults'',
                    Description = [],
                    Rules = \<lparr>Gender = ''all'', Country = ''US'', AgeMin = 30, AgeMax = 20\<rparr>\<rparr>"

definition sample_codec :: codec where
  "sample_codec = [(insight1, ''insight-1.json''), (insight2, ''insight-2.json''),
                   (chart3, ''chart-3.json'')]"

definition MP :: "mem ports" where
  "MP = mem_ports sample_codec"

text \<open>An empty store and cache, everything available.\<close>

definition mem0 :: mem where
  "mem0 = \<lparr>rows = [], zset = [], blobs = [], clock = 1700000000,
           store_err = None, cache_err = None, enricher_err = None,
           enrich_calls = 0, write_calls = 0\<rparr>"

text \<open>The service starts with an empty trace.\<close>

definition start :: "mem \<Rightarrow> mem state" where
  "start w = \<lparr>world = w, trace = []\<rparr>"

text \<open>The consumer that drains a sequence: it never stops pulling.\<close>

definition drain :: consumer where
  "drain ys = True"

text \<open>Asset 1 stored, indexed and cached.\<close>

definition mem1 :: mem where
  "mem1 = mem0\<lparr>rows := [insight1], zset := [(''1'', 1700000000)],
               blobs := [(''1'', ''insight-1.json'')]\<rparr>"

text \<open>Three assets stored and indexed; the blob of asset 2 has gone from the cache.\<close>

definition mem3 :: mem where
  "mem3 = mem0\<lparr>rows := [chart3, insight2, insight1],
               zset := [(''3'', 30), (''2'', 20), (''1'', 10)],
               blobs := [(''3'', ''chart-3.json''), (''1'', ''insight-1.json'')]\<rparr>"

text \<open>Two assets in the store, nothing in the cache.\<close>

definition mem_cold :: mem where
  "mem_cold = mem0\<lparr>rows := [insight2, insight1]\<rparr>"

text \<open>Two assets in the store and a cache that is unreachable.\<close>

definition mem_cold_cache_down :: mem where
  "mem_cold_cache_down = mem_cold\<lparr>cache_err := Some (New ''redis: connection refused'')\<rparr>"

definition mem_store_down :: mem where
  "mem_store_down = mem0\<lparr>store_err := Some (New ''db error'')\<rparr>"

definition mem_cache_down :: mem where
  "mem_cache_down = mem0\<lparr>cache_err := Some (New ''redis: connection refused''),
                         enricher_err := Some (New ''enricher: timeout'')\<rparr>"

text \<open>Asset 1 stored and cached, then the cache becomes unreachable.\<close>

definition mem1_cache_down :: mem where
  "mem1_cache_down = mem1\<lparr>cache_err := Some (New ''redis: connection refused'')\<rparr>"

text \<open>Two assets stored, indexed and cached.\<close>

definition mem_warm :: mem where
  "mem_warm = mem0\<lparr>rows := [insight2, insight1],
                   zset := [(''2'', 20), (''1'', 10)],
                   blobs := [(''2'', ''insight-2.json''), (''1'', ''insight-1.json'')]\<rparr>"

text \<open>
  A page of 103 ids: it spans two chunks, and the second chunk is \<open>[''3'', ''2'', ''1'']\<close>.
\<close>

definition long_page :: "string list" where
  "long_page = replicate 100 ''1'' @ [''3'', ''2'', ''1'']"

text \<open>A page of 101 ids whose second chunk is \<open>[''2'']\<close>.\<close>

definition flaky_page :: "string list" where
  "flaky_page = replicate 100 ''1'' @ [''2'']"

text \<open>
  The in-memory collaborators with a cache whose batch fetch fails whenever id 2 is among
  the ids asked for.
\<close>

definition MP_flaky :: "mem ports" where
  "MP_flaky =
     MP\<lparr>cache_GetBatch :=
          (\<lambda>ids w. if ''2'' \<in> set ids then (Inl (New ''redis: i/o timeout''), w)
                    else mem_cache_GetBatch ids w)\<rparr>"

section \<open>Basic facts about traces\<close>

lemma calls_Nil [simp]: "calls [] = []"
  by (simp add: calls_def)

lemma calls_append [simp]: "calls (t @ u) = calls t @ calls u"
  by (simp add: calls_def)

lemma calls_Cons [simp]: "calls (e # t) = (if is_Log e then calls t else e # calls t)"
  by (simp add: calls_def)

lemma yielded_append [simp]: "yielded (t @ u) = yielded t @ yielded u"
  by (induction t rule: yielded.induct) simp_all

lemma trace_logf [simp]: "trace (logf l m s) = trace s @ [Log l m]"
  by (simp add: logf_def)

lemma world_logf [simp]: "world (logf l m s) = world s"
  by (simp add: logf_def)

lemma call_eq [simp]:
  "f (world s) = (r, w') \<Longrightarrow> call e f s = (r, \<lparr>world = w', trace = trace s @ [e]\<rparr>)"
  by (simp add: call_def)

lemma fst_call [simp]: "fst (call e f s) = fst (f (world s))"
  by (simp add: call_def split: prod.splits)

lemma trace_call [simp]: "trace (snd (call e f s)) = trace s @ [e]"
  by (simp add: call_def split: prod.splits)

lemma world_call [simp]: "world (snd (call e f s)) = snd (f (world s))"
  by (simp add: call_def split: prod.splits)

lemma fst_yield [simp]: "fst (yield k x s) = k (yielded (trace s) @ [x])"
  by (simp add: yield_def Let_def)

lemma trace_yield [simp]: "trace (snd (yield k x s)) = trace s @ [Yield x]"
  by (simp add: yield_def Let_def)

lemma world_yield [simp]: "world (snd (yield k x s)) = world s"
  by (simp add: yield_def Let_def)

lemma yielded_replicate_Yield [simp]: "yielded (replicate n (Yield x)) = replicate n x"
  by (induction n) simp_all

lemma calls_replicate_Yield [simp]: "calls (replicate n (Yield x)) = replicate n (Yield x)"
  by (induction n) simp_all

lemma errors_Is_refl: "errors_Is e e"
  by (cases e) simp_all

lemma wrap64_id: "- (2 ^ 63) \<le> n \<Longrightarrow> n < 2 ^ 63 \<Longrightarrow> wrap64 n = n"
  by (simp add: wrap64_def sint_sbintrunc' signed_take_bit_int_eq_self)

subsection \<open>The write-through helper\<close>

lemma calls_updateCache:
  "calls (trace (updateCache P a s)) = calls (trace s) @ cache_writes P a"
  by (simp add: updateCache_def cache_writes_def Let_def split_beta split: sum.splits option.splits)

lemma world_updateCache: "world (updateCache P a s) = write_through P a (world s)"
  by (simp add: updateCache_def write_through_def Let_def split_beta
        split: sum.splits option.splits)

lemma world_enrichAndSaveCache:
  "world (snd (enrichAndSaveCache P a s)) = enrich_write_through P a (world s)"
  by (simp add: enrichAndSaveCache_def enrich_write_through_def Let_def split_beta
        world_updateCache split: option.splits)

lemma fst_enrichAndSaveCache [simp]: "fst (enrichAndSaveCache P a s) = (a, None)"
  by (simp add: enrichAndSaveCache_def Let_def split_beta)

lemma calls_enrichAndSaveCache:
  "calls (trace (snd (enrichAndSaveCache P a s))) =
     calls (trace s) @ [EnricherEnrich a] @ cache_writes P a"
  by (simp add: enrichAndSaveCache_def Let_def split_beta calls_updateCache split: option.splits)

lemma yielded_updateCache [simp]: "yielded (trace (updateCache P a s)) = yielded (trace s)"
  by (simp add: updateCache_def Let_def split_beta split: sum.splits option.splits)

lemma yielded_enrichAndSaveCache [simp]:
  "yielded (trace (snd (enrichAndSaveCache P a s))) = yielded (trace s)"
  by (simp add: enrichAndSaveCache_def Let_def split_beta split: option.splits)

subsection \<open>The chunked iteration\<close>

lemma chunkLoop_append:
  "chunkLoop P k dm (pre @ rest) s =
     (if fst (chunkLoop P k dm pre s) then chunkLoop P k dm rest (snd (chunkLoop P k dm pre s))
      else (False, snd (chunkLoop P k dm pre s)))"
  by (induction pre arbitrary: s) (simp_all add: split_beta)

lemma chunkedFrom_reach:
  "reach_chunk P k ids s0 n = Some s \<Longrightarrow>
     chunkedFrom P k ids 0 s0 = chunkedFrom P k ids (n * batchSize) s"
proof (induction n arbitrary: s)
  case 0
  then show ?case by simp
next
  case (Suc n)
  from Suc.prems obtain s' where r: "reach_chunk P k ids s0 n = Some s'"
    and lt: "n * batchSize < length ids"
    and st: "fst (chunkStep P k (chunkIds ids (n * batchSize)) s')"
            "snd (chunkStep P k (chunkIds ids (n * batchSize)) s') = s"
    by (auto simp: split_beta split: option.splits if_splits)
  have "chunkedFrom P k ids 0 s0 = chunkedFrom P k ids (n * batchSize) s'"
    using Suc.IH [OF r] .
  also have "\<dots> = chunkedFrom P k ids (n * batchSize + batchSize) s"
    using lt st by (subst chunkedFrom.simps) (simp add: split_beta)
  finally show ?case by (simp add: add.commute)
qed

declare chunkedFrom.simps [simp del]

lemma chunkBody_repair:
  assumes "map_of dataMap aid = None" and "repo_FindByID P aid (world s) = (Inr a, w)"
  shows "calls (trace (snd (chunkBody P k dataMap aid s))) =
           calls (trace s) @ [RepoFindByID aid, EnricherEnrich a] @ cache_writes P a @
           [Yield (Inr a)]"
    and "yielded (trace (snd (chunkBody P k dataMap aid s))) = yielded (trace s) @ [Inr a]"
    and "fst (chunkBody P k dataMap aid s) = k (yielded (trace s) @ [Inr a])"
    and "world (snd (chunkBody P k dataMap aid s)) = enrich_write_through P a w"
  using assms
  by (simp_all add: chunkBody_def Let_def split_beta calls_enrichAndSaveCache
        world_enrichAndSaveCache)

text \<open>A pass that goes on has handed exactly one element to the consumer.\<close>

lemma chunkBody_more:
  "fst (chunkBody P k dm aid s) \<Longrightarrow>
     length (yielded (trace (snd (chunkBody P k dm aid s)))) = Suc (length (yielded (trace s)))"
  by (auto simp: chunkBody_def Let_def split_beta split: option.splits sum.splits)

lemma chunkLoop_more:
  "fst (chunkLoop P k dm ids s) \<Longrightarrow>
     length (yielded (trace (snd (chunkLoop P k dm ids s)))) =
       length (yielded (trace s)) + length ids"
proof (induction ids arbitrary: s)
  case Nil
  then show ?case by simp
next
  case (Cons aid ids)
  from Cons.prems have b: "fst (chunkBody P k dm aid s)"
    and l: "fst (chunkLoop P k dm ids (snd (chunkBody P k dm aid s)))"
    by (auto simp: split_beta split: if_splits)
  show ?case
    using b Cons.IH [OF l] chunkBody_more [OF b] by (simp add: split_beta)
qed

lemma chunkStep_more:
  "fst (chunkStep P k c s) \<Longrightarrow>
     length (yielded (trace (snd (chunkStep P k c s)))) = length (yielded (trace s)) + length c"
  using chunkLoop_more [of P k _ c "snd (call (CacheGetBatch c) (cache_GetBatch P c) s)"]
  by (auto simp: chunkStep_def split_beta split: sum.splits)

lemma length_chunkIds_full:
  "i + batchSize \<le> length ids \<Longrightarrow> length (chunkIds ids i) = batchSize"
  by (simp add: chunkIds_def)

lemma reach_chunk_yields:
  "reach_chunk P k ids s0 n = Some s \<Longrightarrow> n * batchSize \<le> length ids \<Longrightarrow>
     length (yielded (trace s)) = length (yielded (trace s0)) + n * batchSize"
proof (induction n arbitrary: s)
  case 0
  then show ?case by simp
next
  case (Suc n)
  from Suc.prems(1) obtain s' where r: "reach_chunk P k ids s0 n = Some s'"
    and st: "fst (chunkStep P k (chunkIds ids (n * batchSize)) s')"
            "snd (chunkStep P k (chunkIds ids (n * batchSize)) s') = s"
    by (auto simp: split_beta split: option.splits if_splits)
  from Suc.prems(2) have le: "n * batchSize + batchSize \<le> length ids"
    by (simp add: add.commute)
  then have "length (yielded (trace s')) = length (yielded (trace s0)) + n * batchSize"
    using Suc.IH [OF r] by simp
  then show ?case
    using chunkStep_more [OF st(1)] st(2) length_chunkIds_full [OF le] by simp
qed

lemma chunkIds_nth:
  assumes "chunkIds ids i = pre @ aid # post"
  shows "ids ! (i + length pre) = aid"
proof -
  from assms have "length pre < length (chunkIds ids i)" by simp
  then have "chunkIds ids i ! length pre = ids ! (i + length pre)"
    by (simp add: chunkIds_def split: if_splits)
  with assms show ?thesis by simp
qed

subsection \<open>The Store-backed iteration\<close>


subsection \<open>Running the in-memory collaborators\<close>

lemmas mem_defs =
  MP_def mem_ports_def mem_repo_Save_def mem_repo_FindByID_def mem_repo_FindAll_def
  mem_repo_FindByUser_def mem_repo_Delete_def mem_repo_UpdateDescription_def
  mem_cache_AddToSet_def mem_cache_Set_def mem_cache_GetBatch_def mem_cache_GetIdsFromSet_def
  mem_cache_Remove_def mem_enricher_Enrich_def zadd_def zrevrange_def
  table_Marshal_def table_decode_def table_Unmarshal_BaseAsset_def table_Unmarshal_Chart_def
  table_Unmarshal_Insight_def table_Unmarshal_Audience_def sample_codec_def
  insight1_def insight2_def chart3_def insight_no_content_def audience_bad_ages_def
  mem0_def mem1_def mem3_def mem_cold_def mem_store_down_def mem_cache_down_def
  mem1_cache_down_def mem_warm_def mem_cold_cache_down_def start_def drain_def

lemmas validate_defs =
  Chart_Validate_def Insight_Validate_def Audience_Validate_def ValidateCommon_def
  AssetTypeChart_def AssetTypeInsight_def AssetTypeAudience_def

lemma unmarshal_samples:
  "unmarshal MP ''insight-1.json'' = Inr insight1"
  "unmarshal MP ''insight-2.json'' = Inr insight2"
  "unmarshal MP ''chart-3.json'' = Inr chart3"
  by (simp_all add: unmarshal_def mem_defs validate_defs)

lemma unmarshal_flaky: "unmarshal MP_flaky d = unmarshal MP d"
  by (simp add: unmarshal_def MP_flaky_def cong: sum.case_cong if_cong)

lemma cache_writes_samples:
  "cache_writes MP insight1 = [CacheAddToSet ''1'', CacheSet ''1'' ''insight-1.json'']"
  "cache_writes MP insight2 = [CacheAddToSet ''2'', CacheSet ''2'' ''insight-2.json'']"
  by (simp_all add: cache_writes_def mem_defs)

lemma remdups_replicate_pos: "0 < n \<Longrightarrow> remdups (replicate n x) = [x]"
  by (induction n) auto

text \<open>A chunk whose ids are all cached is handed to a draining consumer id by id.\<close>

lemma chunkLoop_replicate_hit:
  assumes "map_of dm x = Some d" and "unmarshal P d = Inr a"
  shows "chunkLoop P drain dm (replicate m x) s =
           (True, \<lparr>world = world s, trace = trace s @ replicate m (Yield (Inr a))\<rparr>)"
proof (induction m arbitrary: s)
  case 0
  then show ?case by simp
next
  case (Suc m)
  have b: "chunkBody P drain dm x s = (True, \<lparr>world = world s, trace = trace s @ [Yield (Inr a)]\<rparr>)"
    using assms by (simp add: chunkBody_def yield_def drain_def)
  show ?case
    by (simp add: b Suc.IH)
qed

lemma chunkIds_two_chunks:
  assumes "rest \<noteq> []" and "length rest \<le> 100"
  shows "chunkIds (replicate 100 x @ rest) 0 = replicate 100 x"
    and "chunkIds (replicate 100 x @ rest) (Suc 0 * batchSize) = rest"
  using assms by (simp_all add: chunkIds_def batchSize_def)

lemma reach_second_chunk:
  assumes "cache_GetBatch P (replicate 100 x) w = (Inr dm, w)"
    and "map_of dm x = Some d" and "unmarshal P d = Inr a"
    and "rest \<noteq> []" and "length rest \<le> 100"
  shows "reach_chunk P drain (replicate 100 x @ rest) \<lparr>world = w, trace = t\<rparr> (Suc 0) =
           Some \<lparr>world = w,
                 trace = t @ CacheGetBatch (replicate 100 x) # replicate 100 (Yield (Inr a))\<rparr>"
proof -
  have "chunkStep P drain (replicate 100 x) \<lparr>world = w, trace = t\<rparr> =
      (True, \<lparr>world = w,
              trace = t @ CacheGetBatch (replicate 100 x) # replicate 100 (Yield (Inr a))\<rparr>)"
    using assms(1) by (simp add: chunkStep_def chunkLoop_replicate_hit [OF assms(2,3)])
  then show ?thesis
    using assms(4,5) by (simp add: chunkIds_two_chunks)
qed

section \<open>Delete and the cache error\<close>

text \<open>
  Claim C1: when the ownership check passes and the Store delete succeeds, \<^verbatim>\<open>Delete\<close>
  reports success even when the cache remove fails; the cache error is swallowed.

  The code does not do this. \<^verbatim>\<open>Delete\<close> ends with \<^verbatim>\<open>return s.cache.Remove(ctx, id)\<close>,
  so the caller receives the cache error although the row is gone from the Store. Below,
  asset 1 is stored and cached and belongs to user \<open>u1\<close>; the cache has become unreachable.
  \<^verbatim>\<open>Delete("1", "u1")\<close> removes the row and returns the cache's error. On the same input
  \<^verbatim>\<open>UpdateDescription\<close>, the sibling operation, swallows that error and returns the updated
  asset.
\<close>

theorem Delete_returns_cache_error:
  "Delete MP ''1'' ''u1'' (start mem1_cache_down) =
     (Some (New ''redis: connection refused''),
      \<lparr>world = mem1_cache_down\<lparr>rows := []\<rparr>,
       trace = [RepoFindByID ''1'', RepoDelete ''1'', CacheRemove ''1'']\<rparr>) \<and>
   fst (UpdateDescription MP ''1'' ''new desc'' ''u1'' (start mem1_cache_down)) =
     Inr (with_Description ''new desc'' insight1)"
  by (simp add: Delete_def UpdateDescription_def mem_defs)

section \<open>FindAll with limit 0\<close>

text \<open>
  Claim C2: for \<open>limit \<ge> 0\<close> and \<open>offset \<ge> 0\<close> the sequence of \<^verbatim>\<open>FindAll(limit, offset)\<close>
  yields at most \<open>limit\<close> assets; in particular \<^verbatim>\<open>FindAll(0, offset)\<close> yields none, even
  when the cache index is non-empty.

  The code does not do this at \<open>limit = 0\<close>, \<open>offset = 0\<close>. It computes
  \<^verbatim>\<open>stop = offset + limit - 1 = -1\<close> and asks the cache for the index range \<open>(0, -1)\<close>, which
  is the whole index. Below, two assets are stored, indexed and cached:
  \<^verbatim>\<open>FindAll(0, 0)\<close> returns the chunked cache iterator over both ids, and draining it
  yields both assets. With \<open>offset = 1\<close> the range \<open>(1, 0)\<close> is empty, the Store is asked
  with \<^verbatim>\<open>LIMIT 0\<close> and nothing is yielded.
\<close>

theorem FindAll_limit_zero_yields_whole_index:
  "FindAll MP 0 0 (start mem_warm) =
     (Inr (ChunkedCacheIterator [''2'', ''1'']),
      \<lparr>world = mem_warm,
       trace = [CacheGetIdsFromSet 0 (- 1), Log Info ''cache hit for favorites list (chunked)'']\<rparr>) \<and>
   yielded (trace (range_Seq2 MP drain (ChunkedCacheIterator [''2'', ''1''])
                     (snd (FindAll MP 0 0 (start mem_warm))))) =
     [Inr insight2, Inr insight1] \<and>
   fst (FindAll MP 0 1 (start mem_warm)) = Inr (CacheIterator []) \<and>
   yielded (trace (range_Seq2 MP drain (CacheIterator [])
                     (snd (FindAll MP 0 1 (start mem_warm))))) = []"
proof -
  let ?ids = "[''2'', ''1'']"
  let ?s1 = "\<lparr>world = mem_warm,
       trace = [CacheGetIdsFromSet 0 (- 1), Log Info ''cache hit for favorites list (chunked)'']\<rparr>"
  have wr: "wrap64 (- 1) = - 1" "wrap64 0 = 0"
    by (simp_all add: wrap64_id)
  have a: "FindAll MP 0 0 (start mem_warm) = (Inr (ChunkedCacheIterator ?ids), ?s1)"
    by (simp add: FindAll_def wr) (simp add: mem_defs logf_def)
  have c: "chunkIds ?ids 0 = ?ids"
    by (simp add: chunkIds_def batchSize_def)
  have g: "cache_GetBatch MP ?ids mem_warm =
      (Inr [(''2'', ''insight-2.json''), (''1'', ''insight-1.json'')], mem_warm)"
    by (simp add: mem_defs)
  have e: "chunkedFrom MP drain ?ids (0 + batchSize) s5 = s5" for s5
    by (subst chunkedFrom.simps) (simp add: batchSize_def)
  have step: "fst (chunkStep MP drain ?ids ?s1) \<and>
      yielded (trace (snd (chunkStep MP drain ?ids ?s1))) = [Inr insight2, Inr insight1]"
    using g by (simp add: chunkStep_def chunkBody_def unmarshal_samples split_beta drain_def)
  have "chunkedCacheIterator MP drain ?ids ?s1 = snd (chunkStep MP drain ?ids ?s1)"
    unfolding chunkedCacheIterator_def using step e
    by (subst chunkedFrom.simps) (simp add: c split_beta)
  then have b: "yielded (trace (range_Seq2 MP drain (ChunkedCacheIterator ?ids)
                     (snd (FindAll MP 0 0 (start mem_warm))))) =
     [Inr insight2, Inr insight1]"
    using step by (simp add: a)
  have d: "fst (FindAll MP 0 1 (start mem_warm)) = Inr (CacheIterator [])"
    by (simp add: FindAll_def wr) (simp add: mem_defs split_beta)
  have d': "yielded (trace (snd (FindAll MP 0 1 (start mem_warm)))) = []"
    by (simp add: FindAll_def wr) (simp add: mem_defs split_beta)
  show ?thesis using a b d d' by simp
qed

section \<open>Save\<close>

text \<open>
  Claim C3: \<^verbatim>\<open>Save(asset)\<close> returns a validation error without any Store or cache call
  when \<^verbatim>\<open>asset.Validate()\<close> fails; it returns a persistence error without any cache or
  enricher call when the Store save fails; and it returns success whenever the Store save
  succeeds, whatever the enricher and the cache do in the write-through step.

  For every behaviour of the ports: a validation error \<open>e\<close> is returned wrapped as
  \<^verbatim>\<open>validation failed: e\<close>, the world is untouched and no port is called; a Store error \<open>e\<close>
  is returned wrapped as \<^verbatim>\<open>failed to save to db: e\<close> and the Store save is the only port
  call; after a successful Store save the result is \<^verbatim>\<open>nil\<close>, and the port calls are the
  save, one enrichment and the cache write-through.
\<close>

theorem Save_outcomes:
  "(\<forall>e. Validate asset = Some e \<longrightarrow>
      fst (Save P asset s) = Some (Errorf ''validation failed: %w'' e) \<and>
      world (snd (Save P asset s)) = world s \<and>
      calls (trace (snd (Save P asset s))) = calls (trace s)) \<and>
   (\<forall>e. Validate asset = None \<and> fst (repo_Save P asset (world s)) = Some e \<longrightarrow>
      fst (Save P asset s) = Some (Errorf ''failed to save to db: %w'' e) \<and>
      world (snd (Save P asset s)) = snd (repo_Save P asset (world s)) \<and>
      calls (trace (snd (Save P asset s))) = calls (trace s) @ [RepoSave asset]) \<and>
   (Validate asset = None \<and> fst (repo_Save P asset (world s)) = None \<longrightarrow>
      fst (Save P asset s) = None \<and>
      calls (trace (snd (Save P asset s))) =
        calls (trace s) @ [RepoSave asset, EnricherEnrich asset] @ cache_writes P asset)"
  by (simp add: Save_def Let_def split_beta calls_enrichAndSaveCache split: option.splits)

text \<open>
  The three cases on the in-memory collaborators: an insight without content; a Store that
  is down; and a Store that works while both the cache and the enricher are down.
\<close>

theorem Save_outcomes_witness:
  "Save MP insight_no_content (start mem0) =
     (Some (Errorf ''validation failed: %w''
              (Errorf ''%w: content is required for Insight'' ErrValidation)),
      \<lparr>world = mem0, trace = [Log Info ''saving asset'']\<rparr>) \<and>
   fst (Save MP insight1 (start mem_store_down)) =
     Some (Errorf ''failed to save to db: %w''
            (Errorf ''failed to insert asset: %w'' (New ''db error''))) \<and>
   calls (trace (snd (Save MP insight1 (start mem_store_down)))) = [RepoSave insight1] \<and>
   fst (Save MP insight1 (start mem_cache_down)) = None \<and>
   calls (trace (snd (Save MP insight1 (start mem_cache_down)))) =
     [RepoSave insight1, EnricherEnrich insight1, CacheAddToSet ''1'',
      CacheSet ''1'' ''insight-1.json'']"
proof -
  have v1: "Validate insight_no_content =
      Some (Errorf ''%w: content is required for Insight'' ErrValidation)"
    by (simp add: insight_no_content_def validate_defs)
  have v2: "Validate insight1 = None"
    by (simp add: insight1_def validate_defs)
  have a: "fst (Save MP insight_no_content (start mem0)) =
      Some (Errorf ''validation failed: %w''
              (Errorf ''%w: content is required for Insight'' ErrValidation)) \<and>
      world (snd (Save MP insight_no_content (start mem0))) = mem0 \<and>
      calls (trace (snd (Save MP insight_no_content (start mem0)))) = []"
    using Save_outcomes [of insight_no_content MP "start mem0"] v1 by (simp add: start_def)
  have a': "trace (snd (Save MP insight_no_content (start mem0))) = [Log Info ''saving asset'']"
    using v1 by (simp add: Save_def start_def)
  have r1: "fst (repo_Save MP insight1 (world (start mem_store_down))) =
      Some (Errorf ''failed to insert asset: %w'' (New ''db error''))"
    by (simp add: mem_defs)
  have b: "fst (Save MP insight1 (start mem_store_down)) =
      Some (Errorf ''failed to save to db: %w''
            (Errorf ''failed to insert asset: %w'' (New ''db error''))) \<and>
      calls (trace (snd (Save MP insight1 (start mem_store_down)))) = [RepoSave insight1]"
    using Save_outcomes [of insight1 MP "start mem_store_down"] v2 r1 by (simp add: start_def)
  have r2: "fst (repo_Save MP insight1 (world (start mem_cache_down))) = None"
    by (simp add: mem_defs)
  have c: "fst (Save MP insight1 (start mem_cache_down)) = None \<and>
      calls (trace (snd (Save MP insight1 (start mem_cache_down)))) =
        [RepoSave insight1, EnricherEnrich insight1, CacheAddToSet ''1'',
         CacheSet ''1'' ''insight-1.json'']"
    using Save_outcomes [of insight1 MP "start mem_cache_down"] v2 r2 cache_writes_samples
    by (simp add: start_def)
  show ?thesis using a a' b c
    by (simp add: prod_eq_iff state.equality)
qed

section \<open>FindByID\<close>

lemma miss_empty:
  "cache_miss (Inr batch) aid \<Longrightarrow> keys_within (Inr batch) [aid] \<Longrightarrow> batch = []"
  by (cases batch) (auto simp: cache_miss_def keys_within_def)

text \<open>
  Claim C4: on a \<^verbatim>\<open>FindByID(id)\<close> cache miss (the batch fetch fails, or the id is absent
  from its result) the Store is consulted exactly once; a Store error such as not-found is
  propagated unchanged; and on Store success the asset is enriched exactly once and written
  to both the cache index and the cache blob before it is returned.

  The cache is any cache that keeps the contract of \<^verbatim>\<open>getBatch\<close> (the keys of the result
  are among the ids asked for). After the batch fetch the port calls are: one Store lookup
  and, when it succeeds, one enrichment and the write-through (\<open>cache_writes\<close>: the index
  add and the blob set, in this order, for an asset that serializes). The world in which
  the call returns is the world the Store lookup left, after the enricher's \<^verbatim>\<open>Enrich\<close> and
  the cache's \<^verbatim>\<open>AddToSet\<close> and \<^verbatim>\<open>Set\<close> have acted on it (\<open>enrich_write_through\<close>).
\<close>

theorem FindByID_cache_miss:
  assumes "cache_GetBatch P [aid] (world s) = (b, w1)"
    and "cache_miss b aid" and "keys_within b [aid]"
  shows "(\<forall>err w2. repo_FindByID P aid w1 = (Inl err, w2) \<longrightarrow>
            FindByID P aid s =
              (Inl err, \<lparr>world = w2, trace = trace s @ [CacheGetBatch [aid], RepoFindByID aid]\<rparr>)) \<and>
         (\<forall>a w2. repo_FindByID P aid w1 = (Inr a, w2) \<longrightarrow>
            fst (FindByID P aid s) = Inr a \<and>
            world (snd (FindByID P aid s)) = enrich_write_through P a w2 \<and>
            calls (trace (snd (FindByID P aid s))) =
              calls (trace s) @
              [CacheGetBatch [aid], RepoFindByID aid, EnricherEnrich a] @ cache_writes P a)"
proof -
  have hit: "(case b of Inl err \<Rightarrow> None | Inr batch \<Rightarrow> if batch \<noteq> [] then Some batch else None) = None"
    using assms(2,3) by (cases b) (auto dest: miss_empty)
  show ?thesis
    using assms(1) hit
    by (simp add: FindByID_def Let_def split_beta result_of_def calls_enrichAndSaveCache
          world_enrichAndSaveCache)
qed

text \<open>
  An empty cache in front of an empty Store, and in front of a Store that holds asset 2:
  asset 2 ends up indexed and cached, after one call of the enricher and two write calls
  on the cache. And a cache that is down in front of a Store that holds asset 1: the
  enricher is called once, both writes are attempted, and the asset is returned.
\<close>

theorem FindByID_cache_miss_witness:
  "FindByID MP ''2'' (start mem0) =
     (Inl (New ''asset not found''),
      \<lparr>world = mem0, trace = [CacheGetBatch [''2''], RepoFindByID ''2'']\<rparr>) \<and>
   FindByID MP ''2'' (start mem_cold) =
     (Inr insight2,
      \<lparr>world = mem_cold\<lparr>zset := [(''2'', 1700000000)], blobs := [(''2'', ''insight-2.json'')],
                         enrich_calls := 1, write_calls := 2\<rparr>,
       trace = [CacheGetBatch [''2''], RepoFindByID ''2'', EnricherEnrich insight2,
                CacheAddToSet ''2'', CacheSet ''2'' ''insight-2.json'']\<rparr>) \<and>
   fst (FindByID MP ''1'' (start mem1_cache_down)) = Inr insight1 \<and>
   world (snd (FindByID MP ''1'' (start mem1_cache_down))) =
     mem1_cache_down\<lparr>enrich_calls := 1, write_calls := 2\<rparr> \<and>
   calls (trace (snd (FindByID MP ''1'' (start mem1_cache_down)))) =
     [CacheGetBatch [''1''], RepoFindByID ''1'', EnricherEnrich insight1,
      CacheAddToSet ''1'', CacheSet ''1'' ''insight-1.json'']"
proof -
  have g0: "cache_GetBatch MP [''2''] (world (start mem0)) = (Inr [], mem0)"
    by (simp add: mem_defs)
  have m: "cache_miss (Inr []) ''2''" "keys_within (Inr []) [''2'']"
    by (simp_all add: cache_miss_def keys_within_def)
  have r0: "repo_FindByID MP ''2'' mem0 = (Inl (New ''asset not found''), mem0)"
    by (simp add: mem_defs)
  have a: "FindByID MP ''2'' (start mem0) =
     (Inl (New ''asset not found''),
      \<lparr>world = mem0, trace = [CacheGetBatch [''2''], RepoFindByID ''2'']\<rparr>)"
    using FindByID_cache_miss [OF g0 m] r0 by (simp add: start_def)
  have g1: "cache_GetBatch MP [''2''] (world (start mem_cold)) = (Inr [], mem_cold)"
    by (simp add: mem_defs)
  have r1: "repo_FindByID MP ''2'' mem_cold = (Inr insight2, mem_cold)"
    by (simp add: mem_defs)
  have e1: "enrich_write_through MP insight2 mem_cold =
      mem_cold\<lparr>zset := [(''2'', 1700000000)], blobs := [(''2'', ''insight-2.json'')],
               enrich_calls := 1, write_calls := 2\<rparr>"
    by (simp add: enrich_write_through_def write_through_def mem_defs)
  have b: "fst (FindByID MP ''2'' (start mem_cold)) = Inr insight2 \<and>
     world (snd (FindByID MP ''2'' (start mem_cold))) =
       mem_cold\<lparr>zset := [(''2'', 1700000000)], blobs := [(''2'', ''insight-2.json'')],
                enrich_calls := 1, write_calls := 2\<rparr> \<and>
     calls (trace (snd (FindByID MP ''2'' (start mem_cold)))) =
       [CacheGetBatch [''2''], RepoFindByID ''2'', EnricherEnrich insight2,
        CacheAddToSet ''2'', CacheSet ''2'' ''insight-2.json'']"
    using FindByID_cache_miss [OF g1 m] r1 e1 cache_writes_samples by (simp add: start_def)
  have b': "trace (snd (FindByID MP ''2'' (start mem_cold))) =
      calls (trace (snd (FindByID MP ''2'' (start mem_cold))))"
    using g1 r1
    by (simp add: FindByID_def start_def enrichAndSaveCache_def updateCache_def Let_def)
       (simp add: mem_defs logf_def)
  have g2: "cache_GetBatch MP [''1''] (world (start mem1_cache_down)) =
      (Inl (New ''redis: connection refused''), mem1_cache_down)"
    by (simp add: mem_defs)
  have m2: "cache_miss (Inl (New ''redis: connection refused'')) ''1''"
    "keys_within (Inl (New ''redis: connection refused'')) [''1'']"
    by (simp_all add: cache_miss_def keys_within_def)
  have r2: "repo_FindByID MP ''1'' mem1_cache_down = (Inr insight1, mem1_cache_down)"
    by (simp add: mem_defs)
  have e2: "enrich_write_through MP insight1 mem1_cache_down =
      mem1_cache_down\<lparr>enrich_calls := 1, write_calls := 2\<rparr>"
    by (simp add: enrich_write_through_def write_through_def mem_defs)
  have c: "fst (FindByID MP ''1'' (start mem1_cache_down)) = Inr insight1 \<and>
     world (snd (FindByID MP ''1'' (start mem1_cache_down))) =
       mem1_cache_down\<lparr>enrich_calls := 1, write_calls := 2\<rparr> \<and>
     calls (trace (snd (FindByID MP ''1'' (start mem1_cache_down)))) =
       [CacheGetBatch [''1''], RepoFindByID ''1'', EnricherEnrich insight1,
        CacheAddToSet ''1'', CacheSet ''1'' ''insight-1.json'']"
    using FindByID_cache_miss [OF g2 m2] r2 e2 cache_writes_samples by (simp add: start_def)
  show ?thesis using a b b' c
    by (simp add: prod_eq_iff state.equality)
qed

text \<open>
  Claim C5: when \<^verbatim>\<open>getBatch({id})\<close> succeeds and its result contains bytes for the id,
  \<^verbatim>\<open>FindByID(id)\<close> makes no Store call and no Enricher call and returns the asset
  deserialized from the cached bytes.

  The batch fetch is the only event of the call, and the result is that of \<open>unmarshal\<close>
  on the cached bytes.
\<close>

theorem FindByID_cache_hit:
  assumes "cache_GetBatch P [aid] (world s) = (Inr batch, w')"
    and "map_of batch aid = Some data"
  shows "FindByID P aid s =
           (unmarshal P data, \<lparr>world = w', trace = trace s @ [CacheGetBatch [aid]]\<rparr>)"
proof -
  from assms(2) have "batch \<noteq> []" by auto
  with assms show ?thesis
    by (simp add: FindByID_def index_map_def)
qed

theorem FindByID_cache_hit_witness:
  "cache_GetBatch MP [''1''] (world (start mem1)) = (Inr [(''1'', ''insight-1.json'')], mem1) \<and>
   FindByID MP ''1'' (start mem1) =
     (Inr insight1, \<lparr>world = mem1, trace = [CacheGetBatch [''1'']]\<rparr>)"
proof -
  have h1: "cache_GetBatch MP [''1''] (world (start mem1)) =
      (Inr [(''1'', ''insight-1.json'')], mem1)"
    by (simp add: mem_defs)
  have h2: "map_of [(''1'', ''insight-1.json'')] ''1'' = Some ''insight-1.json''"
    by simp
  show ?thesis
    using FindByID_cache_hit [OF h1 h2] h1 unmarshal_samples by (simp add: start_def)
qed

section \<open>The chunked cache iterator\<close>

text \<open>
  Claim C6: during the cache-backed iteration, for every index id that is absent from its
  batch result and whose Store lookup succeeds, the iterator fetches that single id from
  the Store, enriches it, writes it through to the cache and yields the repaired asset in
  that id's position, then goes on with the remaining ids of the page; the Store and the
  Enricher are invoked exactly once for the repaired id.

  The iteration over the page \<open>ids\<close> has arrived at its \<open>n\<close>-th chunk in state \<open>s\<close>, has
  fetched the chunk and has handed the ids \<open>pre\<close> in front of \<open>aid\<close> to a consumer that
  is still pulling (state \<open>s2\<close>). The id \<open>aid\<close> is absent from the batch and the Store returns
  the asset \<open>a\<close> for it. Then \<open>aid\<close> is the id at index \<open>n * batchSize + length pre\<close> of the
  page and the iteration passes through a state \<open>s4\<close> such that: between \<open>s2\<close> and \<open>s4\<close>
  the port calls are one Store lookup of \<open>aid\<close>, one enrichment of \<open>a\<close> and the
  write-through of \<open>a\<close>, followed by the yield of \<open>a\<close>; the world of \<open>s4\<close> is the
  world the Store lookup left, after the enricher's \<^verbatim>\<open>Enrich\<close> and the cache's
  \<^verbatim>\<open>AddToSet\<close> and \<^verbatim>\<open>Set\<close> have acted on it; \<open>a\<close> is the element at that same
  index of what the iteration has yielded; and, when the consumer wants more, the
  iteration goes on with the ids \<open>post\<close> behind \<open>aid\<close> and then with the next chunk.
\<close>

theorem read_repair_in_place:
  assumes "reach_chunk P k ids s0 n = Some s"
    and "n * batchSize < length ids"
    and "chunkIds ids (n * batchSize) = pre @ aid # post"
    and "cache_GetBatch P (chunkIds ids (n * batchSize)) (world s) = (Inr dataMap, w1)"
    and "chunkLoop P k dataMap pre
           \<lparr>world = w1, trace = trace s @ [CacheGetBatch (chunkIds ids (n * batchSize))]\<rparr> =
         (True, s2)"
    and "map_of dataMap aid = None"
    and "repo_FindByID P aid (world s2) = (Inr a, w3)"
  shows "ids ! (n * batchSize + length pre) = aid \<and>
         (\<exists>s4. calls (trace s4) =
                 calls (trace s2) @ [RepoFindByID aid, EnricherEnrich a] @ cache_writes P a @
                 [Yield (Inr a)] \<and>
               world s4 = enrich_write_through P a w3 \<and>
               yielded (trace s4) = yielded (trace s2) @ [Inr a] \<and>
               drop (length (yielded (trace s0))) (yielded (trace s4)) !
                 (n * batchSize + length pre) = Inr a \<and>
               chunkedCacheIterator P k ids s0 =
                 (if k (yielded (trace s4)) then
                    (let (more, s5) = chunkLoop P k dataMap post s4
                     in if more then chunkedFrom P k ids (Suc n * batchSize) s5 else s5)
                  else s4))"
proof -
  let ?c = "chunkIds ids (n * batchSize)"
  let ?s1 = "\<lparr>world = w1, trace = trace s @ [CacheGetBatch ?c]\<rparr>"
  let ?s4 = "snd (chunkBody P k dataMap aid s2)"
  note rep = chunkBody_repair [OF assms(6,7), of k]
  have pos: "ids ! (n * batchSize + length pre) = aid"
    using chunkIds_nth [OF assms(3)] .
  have "length (yielded (trace s)) = length (yielded (trace s0)) + n * batchSize"
    using reach_chunk_yields [OF assms(1)] assms(2) by simp
  moreover have "length (yielded (trace s2)) = length (yielded (trace ?s1)) + length pre"
    using chunkLoop_more [of P k dataMap pre ?s1] assms(5) by simp
  ultimately have len: "length (yielded (trace s2)) =
      length (yielded (trace s0)) + (n * batchSize + length pre)"
    by simp
  have nth: "drop (length (yielded (trace s0))) (yielded (trace ?s4)) !
      (n * batchSize + length pre) = Inr a"
    using rep(2) len by (simp add: nth_append)
  have step: "chunkStep P k ?c s = chunkLoop P k dataMap (pre @ aid # post) ?s1"
    using assms(3,4) by (simp add: chunkStep_def)
  have loop: "chunkLoop P k dataMap (pre @ aid # post) ?s1 =
          (if k (yielded (trace ?s4)) then chunkLoop P k dataMap post ?s4 else (False, ?s4))"
    using assms(5) rep by (simp add: chunkLoop_append split_beta)
  have "chunkedCacheIterator P k ids s0 = chunkedFrom P k ids (n * batchSize) s"
    using chunkedFrom_reach [OF assms(1)] by (simp add: chunkedCacheIterator_def)
  also have "\<dots> = (let (more, s') = chunkStep P k ?c s
         in if more then chunkedFrom P k ids (n * batchSize + batchSize) s' else s')"
    using assms(2) by (subst chunkedFrom.simps) simp
  also have "\<dots> = (if k (yielded (trace ?s4)) then
                   (let (more, s5) = chunkLoop P k dataMap post ?s4
                    in if more then chunkedFrom P k ids (Suc n * batchSize) s5 else s5)
                 else ?s4)"
    by (simp add: step loop split_beta add.commute)
  finally show ?thesis using rep pos nth by blast
qed

text \<open>
  A page of 103 ids on the in-memory collaborators. The first chunk of 100 ids is served
  from the cache. In the second chunk \<open>[''3'', ''2'', ''1'']\<close> the blob of asset 2 is
  missing: asset 2 is repaired from the Store and yielded between assets 3 and 1, as
  element 101 of the sequence. At the end asset 2 heads the index and has its blob, the
  enricher has been called once and the cache has received two write calls.
\<close>

theorem read_repair_in_place_witness:
  "long_page ! 101 = ''2'' \<and>
   map_of [(''3'', ''chart-3.json''), (''1'', ''insight-1.json'')] ''2'' = None \<and>
   repo_FindByID MP ''2'' mem3 = (Inr insight2, mem3) \<and>
   calls (trace (chunkedCacheIterator MP drain long_page (start mem3))) =
     CacheGetBatch (replicate 100 ''1'') # replicate 100 (Yield (Inr insight1)) @
     [CacheGetBatch [''3'', ''2'', ''1''], Yield (Inr chart3),
      RepoFindByID ''2'', EnricherEnrich insight2, CacheAddToSet ''2'',
      CacheSet ''2'' ''insight-2.json'', Yield (Inr insight2),
      Yield (Inr insight1)] \<and>
   yielded (trace (chunkedCacheIterator MP drain long_page (start mem3))) ! 101 = Inr insight2 \<and>
   world (chunkedCacheIterator MP drain long_page (start mem3)) =
     mem3\<lparr>zset := [(''2'', 1700000000), (''3'', 30), (''1'', 10)],
          blobs := [(''2'', ''insight-2.json''), (''3'', ''chart-3.json''),
                    (''1'', ''insight-1.json'')],
          enrich_calls := 1, write_calls := 2\<rparr>"
proof -
  let ?dm = "[(''3'', ''chart-3.json''), (''1'', ''insight-1.json'')]"
  let ?c = "[''3''] @ ''2'' # [''1'']"
  let ?t = "CacheGetBatch (replicate 100 ''1'') # replicate 100 (Yield (Inr insight1))"
  let ?s = "\<lparr>world = mem3, trace = ?t\<rparr>"
  let ?s2 = "\<lparr>world = mem3, trace = ?t @ [CacheGetBatch ?c, Yield (Inr chart3)]\<rparr>"
  have lp: "long_page = replicate 100 ''1'' @ ?c"
    by (simp add: long_page_def)
  have g0: "cache_GetBatch MP (replicate 100 ''1'') mem3 = (Inr [(''1'', ''insight-1.json'')], mem3)"
    by (simp add: mem_defs remdups_replicate_pos)
  have r: "reach_chunk MP drain long_page (start mem3) (Suc 0) = Some ?s"
    unfolding lp start_def
    using reach_second_chunk [OF g0 _ unmarshal_samples(1), of ?c "[]"] by simp
  have l: "Suc 0 * batchSize < length long_page"
    by (simp add: long_page_def batchSize_def)
  have c: "chunkIds long_page (Suc 0 * batchSize) = ?c"
    unfolding lp by (rule chunkIds_two_chunks) simp_all
  have g: "cache_GetBatch MP (chunkIds long_page (Suc 0 * batchSize)) (world ?s) = (Inr ?dm, mem3)"
    unfolding c by (simp add: mem_defs)
  have p: "chunkLoop MP drain ?dm [''3'']
             \<lparr>world = mem3,
              trace = trace ?s @ [CacheGetBatch (chunkIds long_page (Suc 0 * batchSize))]\<rparr> =
           (True, ?s2)"
    unfolding c by (simp add: chunkBody_def unmarshal_samples yield_def drain_def)
  have m: "map_of ?dm ''2'' = None"
    by simp
  have f: "repo_FindByID MP ''2'' (world ?s2) = (Inr insight2, mem3)"
    by (simp add: mem_defs)
  from read_repair_in_place [OF r l c g p m f] obtain s4 where
    pos: "long_page ! (Suc 0 * batchSize + length [''3'']) = ''2''"
    and s4: "calls (trace s4) =
           calls (trace ?s2) @ [RepoFindByID ''2'', EnricherEnrich insight2] @
           cache_writes MP insight2 @ [Yield (Inr insight2)]"
        "yielded (trace s4) = yielded (trace ?s2) @ [Inr insight2]"
        "chunkedCacheIterator MP drain long_page (start mem3) =
           (if drain (yielded (trace s4)) then
              (let (more, s5) = chunkLoop MP drain ?dm [''1''] s4
               in if more then chunkedFrom MP drain long_page (Suc (Suc 0) * batchSize) s5 else s5)
            else s4)"
    and w4: "world s4 = enrich_write_through MP insight2 mem3"
    by blast
  have ew: "enrich_write_through MP insight2 mem3 =
      mem3\<lparr>zset := [(''2'', 1700000000), (''3'', 30), (''1'', 10)],
           blobs := [(''2'', ''insight-2.json''), (''3'', ''chart-3.json''),
                     (''1'', ''insight-1.json'')],
           enrich_calls := 1, write_calls := 2\<rparr>"
    by (simp add: enrich_write_through_def write_through_def mem_defs)
  have lastw: "world (snd (chunkLoop MP drain ?dm [''1''] s4)) = world s4"
    by (simp add: chunkBody_def unmarshal_samples split_beta drain_def)
  have e: "chunkedFrom MP drain long_page (Suc (Suc 0) * batchSize) s5 = s5" for s5
    by (subst chunkedFrom.simps) (simp add: batchSize_def long_page_def)
  have cl: "fst (chunkLoop MP drain ?dm [''1''] s4)"
    by (simp add: chunkBody_def unmarshal_samples split_beta drain_def)
  have run: "chunkedCacheIterator MP drain long_page (start mem3) =
      snd (chunkLoop MP drain ?dm [''1''] s4)"
    using s4(3) cl e by (simp add: drain_def split_beta del: chunkLoop.simps)
  have last: "trace (snd (chunkLoop MP drain ?dm [''1''] s4)) = trace s4 @ [Yield (Inr insight1)]"
    by (simp add: chunkBody_def unmarshal_samples split_beta drain_def)
  have tr: "calls (trace (chunkedCacheIterator MP drain long_page (start mem3))) =
     ?t @ [CacheGetBatch ?c, Yield (Inr chart3),
      RepoFindByID ''2'', EnricherEnrich insight2, CacheAddToSet ''2'',
      CacheSet ''2'' ''insight-2.json'', Yield (Inr insight2),
      Yield (Inr insight1)]"
    using run last s4(1) cache_writes_samples by (simp add: calls_def)
  have y: "yielded ?t = replicate 100 (Inr insight1)"
    by (simp add: yielded_replicate_Yield)
  have "yielded (trace (chunkedCacheIterator MP drain long_page (start mem3))) =
      replicate 100 (Inr insight1) @ [Inr chart3, Inr insight2, Inr insight1]"
    using run last s4(2) y by simp
  then have nth: "yielded (trace (chunkedCacheIterator MP drain long_page (start mem3))) ! 101 =
      Inr insight2"
    by (simp add: nth_append)
  have pos': "long_page ! 101 = ''2''"
    using pos by (simp add: batchSize_def)
  have wf: "world (chunkedCacheIterator MP drain long_page (start mem3)) =
      mem3\<lparr>zset := [(''2'', 1700000000), (''3'', 30), (''1'', 10)],
           blobs := [(''2'', ''insight-2.json''), (''3'', ''chart-3.json''),
                     (''1'', ''insight-1.json'')],
           enrich_calls := 1, write_calls := 2\<rparr>"
    using run lastw w4 ew by simp
  show ?thesis
    using pos' m f tr nth wf by simp
qed

lemma chunked_batch_error:
  assumes "reach_chunk P k ids s0 n = Some s"
    and "n * batchSize < length ids"
    and "cache_GetBatch P (chunkIds ids (n * batchSize)) (world s) = (Inl e, w')"
  shows "chunkedCacheIterator P k ids s0 =
           \<lparr>world = w',
            trace = trace s @ [CacheGetBatch (chunkIds ids (n * batchSize)),
                               Yield (Inl (Errorf ''failed to fetch cache batch: %w'' e))]\<rparr>"
proof -
  have "chunkedCacheIterator P k ids s0 = chunkedFrom P k ids (n * batchSize) s"
    using chunkedFrom_reach [OF assms(1)] by (simp add: chunkedCacheIterator_def)
  also have "\<dots> = snd (chunkStep P k (chunkIds ids (n * batchSize)) s)"
    using assms(2,3) by (subst chunkedFrom.simps) (simp add: chunkStep_def split_beta)
  also have "\<dots> = \<lparr>world = w',
            trace = trace s @ [CacheGetBatch (chunkIds ids (n * batchSize)),
                               Yield (Inl (Errorf ''failed to fetch cache batch: %w'' e))]\<rparr>"
    using assms(3) by (simp add: chunkStep_def yield_def Let_def)
  finally show ?thesis .
qed

text \<open>
  A page of 101 ids and a cache whose batch fetch fails for the second chunk: the
  iteration arrives at the second chunk after the 100 assets of the first.
\<close>

lemma flaky_reach:
  "reach_chunk MP_flaky drain flaky_page (start mem1) (Suc 0) =
     Some \<lparr>world = mem1,
           trace = CacheGetBatch (replicate 100 ''1'') # replicate 100 (Yield (Inr insight1))\<rparr>"
  "Suc 0 * batchSize < length flaky_page"
  "chunkIds flaky_page (Suc 0 * batchSize) = [''2'']"
proof -
  have fp: "flaky_page = replicate 100 ''1'' @ [''2'']"
    by (simp add: flaky_page_def)
  have g0: "cache_GetBatch MP_flaky (replicate 100 ''1'') mem1 =
      (Inr [(''1'', ''insight-1.json'')], mem1)"
    by (simp add: MP_flaky_def) (simp add: mem_defs remdups_replicate_pos)
  have u: "unmarshal MP_flaky ''insight-1.json'' = Inr insight1"
    by (simp add: unmarshal_flaky unmarshal_samples)
  show "reach_chunk MP_flaky drain flaky_page (start mem1) (Suc 0) =
     Some \<lparr>world = mem1,
           trace = CacheGetBatch (replicate 100 ''1'') # replicate 100 (Yield (Inr insight1))\<rparr>"
    unfolding fp start_def
    using reach_second_chunk [OF g0 _ u, of "[''2'']" "[]"] by simp
  show "Suc 0 * batchSize < length flaky_page"
    by (simp add: flaky_page_def batchSize_def)
  show "chunkIds flaky_page (Suc 0 * batchSize) = [''2'']"
    unfolding fp by (rule chunkIds_two_chunks) simp_all
qed

lemma flaky_GetBatch:
  "cache_GetBatch MP_flaky [''2''] mem1 = (Inl (New ''redis: i/o timeout''), mem1)"
  by (simp add: MP_flaky_def)

text \<open>
  Claim C7: during the cache-backed iteration, a batch-fetch error for any chunk makes the
  sequence yield exactly that error as its final element and terminate: no asset of that
  chunk or of any later chunk is yielded, and no id is silently skipped.

  The element yielded is not that error itself. The code yields
  \<^verbatim>\<open>fmt.Errorf("failed to fetch cache batch: %w", err)\<close>, a new error that wraps it. On
  the page of 101 ids the batch fetch of the second chunk fails with
  \<^verbatim>\<open>redis: i/o timeout\<close>, and the last element of the sequence is the wrapping error.
\<close>

theorem batch_error_is_wrapped:
  "cache_GetBatch MP_flaky [''2''] mem1 = (Inl (New ''redis: i/o timeout''), mem1) \<and>
   last (yielded (trace (chunkedCacheIterator MP_flaky drain flaky_page (start mem1)))) =
     Inl (Errorf ''failed to fetch cache batch: %w'' (New ''redis: i/o timeout'')) \<and>
   last (yielded (trace (chunkedCacheIterator MP_flaky drain flaky_page (start mem1)))) \<noteq>
     Inl (New ''redis: i/o timeout'')"
proof -
  have g: "cache_GetBatch MP_flaky (chunkIds flaky_page (Suc 0 * batchSize))
             (world \<lparr>world = mem1,
                     trace = CacheGetBatch (replicate 100 ''1'') #
                             replicate 100 (Yield (Inr insight1))\<rparr>) =
           (Inl (New ''redis: i/o timeout''), mem1)"
    unfolding flaky_reach(3) by (simp add: flaky_GetBatch)
  show ?thesis
    using chunked_batch_error [OF flaky_reach(1,2) g] flaky_GetBatch by simp
qed

text \<open>
  Claim C7 as amended: a batch-fetch error for any chunk makes the sequence yield that
  error, wrapped with the context \<^verbatim>\<open>failed to fetch cache batch\<close>, as its final element
  and terminate: no asset of that chunk or of any later chunk is yielded, and no id is
  silently skipped.

  The iteration over the page \<open>ids\<close> has arrived at its \<open>n\<close>-th chunk in state \<open>s\<close>, and
  the batch fetch of that chunk fails with \<open>e\<close>. Then the whole iteration ends in the
  state whose trace is that of \<open>s\<close> followed by the batch fetch and one yield: the error
  \<open>e\<close> wrapped by \<^verbatim>\<open>fmt.Errorf("failed to fetch cache batch: %w", e)\<close>, which
  \<^verbatim>\<open>errors.Is\<close> identifies with \<open>e\<close>. Nothing is yielded and no port is called after it.
\<close>

theorem batch_error_is_fatal:
  assumes "reach_chunk P k ids s0 n = Some s"
    and "n * batchSize < length ids"
    and "cache_GetBatch P (chunkIds ids (n * batchSize)) (world s) = (Inl e, w')"
  shows "chunkedCacheIterator P k ids s0 =
           \<lparr>world = w',
            trace = trace s @ [CacheGetBatch (chunkIds ids (n * batchSize)),
                               Yield (Inl (Errorf ''failed to fetch cache batch: %w'' e))]\<rparr> \<and>
         errors_Is (Errorf ''failed to fetch cache batch: %w'' e) e"
  using chunked_batch_error [OF assms] by (simp add: errors_Is_refl)

text \<open>
  On the page of 101 ids: the 100 assets of the first chunk are yielded, then the wrapped
  error, and the iteration is over.
\<close>

theorem batch_error_is_fatal_witness:
  "chunkedCacheIterator MP_flaky drain flaky_page (start mem1) =
     \<lparr>world = mem1,
      trace = CacheGetBatch (replicate 100 ''1'') # replicate 100 (Yield (Inr insight1)) @
              [CacheGetBatch [''2''],
               Yield (Inl (Errorf ''failed to fetch cache batch: %w''
                             (New ''redis: i/o timeout'')))]\<rparr> \<and>
   errors_Is (Errorf ''failed to fetch cache batch: %w'' (New ''redis: i/o timeout''))
     (New ''redis: i/o timeout'')"
proof -
  have g: "cache_GetBatch MP_flaky (chunkIds flaky_page (Suc 0 * batchSize))
             (world \<lparr>world = mem1,
                     trace = CacheGetBatch (replicate 100 ''1'') #
                             replicate 100 (Yield (Inr insight1))\<rparr>) =
           (Inl (New ''redis: i/o timeout''), mem1)"
    unfolding flaky_reach(3) by (simp add: flaky_GetBatch)
  show ?thesis
    using batch_error_is_fatal [OF flaky_reach(1,2) g] flaky_reach(3) by simp
qed

section \<open>Ownership\<close>

text \<open>
  Claim C8: when the Store's current copy of the asset has an owner different from the
  caller-supplied owner id, \<^verbatim>\<open>Delete\<close> and \<^verbatim>\<open>UpdateDescription\<close> return a Forbidden error
  and perform no Store mutation and no cache call; the ownership check always reads the
  asset from the Store, never from the cache.

  For every behaviour of the ports, the first port call of both operations is the Store
  lookup of the id, and neither operation ever reads the cache. When the asset found has
  another owner, the lookup is the only event and the result is the error
  \<^verbatim>\<open>forbidden: you do not own this asset\<close>.
\<close>

theorem not_owner_forbidden:
  "(\<exists>t. calls (trace (snd (Delete P aid userID s))) = calls (trace s) @ RepoFindByID aid # t \<and>
        (\<forall>ids. CacheGetBatch ids \<notin> set t) \<and> (\<forall>a b. CacheGetIdsFromSet a b \<notin> set t)) \<and>
   (\<exists>t. calls (trace (snd (UpdateDescription P aid description userID s))) =
          calls (trace s) @ RepoFindByID aid # t \<and>
        (\<forall>ids. CacheGetBatch ids \<notin> set t) \<and> (\<forall>a b. CacheGetIdsFromSet a b \<notin> set t)) \<and>
   (\<forall>a w1. repo_FindByID P aid (world s) = (Inr a, w1) \<and> GetUserID a \<noteq> userID \<longrightarrow>
      Delete P aid userID s =
        (Some forbidden, \<lparr>world = w1, trace = trace s @ [RepoFindByID aid]\<rparr>) \<and>
      UpdateDescription P aid description userID s =
        (Inl forbidden, \<lparr>world = w1, trace = trace s @ [RepoFindByID aid]\<rparr>))"
  apply (intro conjI)
  subgoal by (simp add: Delete_def Let_def split_beta split: sum.splits option.splits)
  subgoal by (simp add: UpdateDescription_def Let_def split_beta split: sum.splits option.splits)
  subgoal by (simp add: Delete_def UpdateDescription_def)
  done

text \<open>Asset 1 belongs to user \<open>u1\<close>; user \<open>u2\<close> tries to delete and to update it.\<close>

theorem not_owner_forbidden_witness:
  "repo_FindByID MP ''1'' (world (start mem1)) = (Inr insight1, mem1) \<and>
   GetUserID insight1 = ''u1'' \<and>
   Delete MP ''1'' ''u2'' (start mem1) =
     (Some (New ''forbidden: you do not own this asset''),
      \<lparr>world = mem1, trace = [RepoFindByID ''1'']\<rparr>) \<and>
   UpdateDescription MP ''1'' ''new desc'' ''u2'' (start mem1) =
     (Inl (New ''forbidden: you do not own this asset''),
      \<lparr>world = mem1, trace = [RepoFindByID ''1'']\<rparr>)"
proof -
  have r: "repo_FindByID MP ''1'' (world (start mem1)) = (Inr insight1, mem1)"
    by (simp add: mem_defs)
  have o: "GetUserID insight1 = ''u1''"
    by (simp add: insight1_def)
  show ?thesis
    using not_owner_forbidden [of MP "''1''" "''u2''" "start mem1" "''new desc''"] r o
    by (simp add: start_def forbidden_def)
qed

section \<open>Validation\<close>

lemma Validate_None_iff: "(Validate a = None) = (shared_fields_valid a \<and> variant_rule a)"
  by (cases a)
     (auto simp: Chart_Validate_def Insight_Validate_def Audience_Validate_def ValidateCommon_def
        shared_fields_valid_def split: option.splits if_splits)

lemma Validate_errors_Is: "Validate a = Some e \<Longrightarrow> errors_Is e ErrValidation"
  by (cases a)
     (auto simp: Chart_Validate_def Insight_Validate_def Audience_Validate_def ValidateCommon_def
        ErrValidation_def split: option.splits if_splits)

text \<open>
  Claim C9: \<^verbatim>\<open>Validate\<close> succeeds exactly when the shared fields are valid (non-empty id,
  non-empty name, discriminator matching the concrete variant) and the variant rule holds
  (Chart: at least one of the two axis labels non-empty; Insight: non-empty content;
  Audience: non-empty country, both age bounds non-negative, and min \<open>\<le>\<close> max when max is
  set); each violated rule produces its validation error, and the shared fields are checked
  before the variant's own.

  The first line is the equivalence. The next three give the error of each shared-field
  rule, in the order of the checks. Under valid shared fields the following lines give the
  error of each variant rule, again in the order of the checks. Every error wraps
  \<^verbatim>\<open>ErrValidation\<close>.
\<close>

theorem Validate_rules:
  "(Validate a = None \<longleftrightarrow> shared_fields_valid a \<and> variant_rule a) \<and>
   (GetID a = [] \<longrightarrow> Validate a = Some (Errorf ''%w: id is required'' ErrValidation)) \<and>
   (GetID a \<noteq> [] \<and> GetName a = [] \<longrightarrow>
      Validate a = Some (Errorf ''%w: name is required'' ErrValidation)) \<and>
   (GetID a \<noteq> [] \<and> GetName a \<noteq> [] \<and> GetType a \<noteq> variant_type a \<longrightarrow>
      Validate a =
        Some (Errorf (''%w: invalid asset type: expected '' @ variant_type a @ '', got '' @ GetType a)
                ErrValidation)) \<and>
   (shared_fields_valid a \<longrightarrow>
      (\<forall>c. a = AssetChart c \<and> XAxis c = [] \<and> YAxis c = [] \<longrightarrow>
         Validate a =
           Some (Errorf ''%w: chart requires at least one axis to be defined'' ErrValidation)) \<and>
      (\<forall>i. a = AssetInsight i \<and> Content i = [] \<longrightarrow>
         Validate a = Some (Errorf ''%w: content is required for Insight'' ErrValidation)) \<and>
      (\<forall>u. a = AssetAudience u \<longrightarrow>
         (Country (Rules u) = [] \<longrightarrow>
            Validate a = Some (Errorf ''%w: country rule is required for Audience'' ErrValidation)) \<and>
         (Country (Rules u) \<noteq> [] \<and> (AgeMin (Rules u) < 0 \<or> AgeMax (Rules u) < 0) \<longrightarrow>
            Validate a = Some (Errorf ''%w: age limits cannot be negative'' ErrValidation)) \<and>
         (Country (Rules u) \<noteq> [] \<and> 0 \<le> AgeMin (Rules u) \<and> 0 \<le> AgeMax (Rules u) \<and>
          AgeMax (Rules u) \<noteq> 0 \<and> AgeMax (Rules u) < AgeMin (Rules u) \<longrightarrow>
            Validate a =
              Some (Errorf ''%w: age_min cannot be greater than age_max'' ErrValidation)))) \<and>
   (\<forall>e. Validate a = Some e \<longrightarrow> errors_Is e ErrValidation)"
  apply (intro conjI)
  subgoal by (rule Validate_None_iff)
  subgoal by (cases a) (auto simp: Chart_Validate_def Insight_Validate_def Audience_Validate_def ValidateCommon_def)
  subgoal by (cases a) (auto simp: Chart_Validate_def Insight_Validate_def Audience_Validate_def ValidateCommon_def)
  subgoal by (cases a) (auto simp: Chart_Validate_def Insight_Validate_def Audience_Validate_def ValidateCommon_def)
  subgoal by (cases a) (auto simp: Chart_Validate_def Insight_Validate_def Audience_Validate_def ValidateCommon_def shared_fields_valid_def)
  subgoal using Validate_errors_Is by blast
  done

text \<open>
  A valid insight, an insight without content, a chart labelled as an insight, and an
  audience whose minimum age exceeds its maximum.
\<close>

theorem Validate_rules_witness:
  "shared_fields_valid insight1 \<and> variant_rule insight1 \<and> Validate insight1 = None \<and>
   Validate insight_no_content =
     Some (Errorf ''%w: content is required for Insight'' ErrValidation) \<and>
   Validate chart_wrong_type =
     Some (Errorf ''%w: invalid asset type: expected chart, got insight'' ErrValidation) \<and>
   Validate audience_bad_ages =
     Some (Errorf ''%w: age_min cannot be greater than age_max'' ErrValidation)"
proof -
  have ok: "shared_fields_valid insight1 \<and> variant_rule insight1"
    by (simp add: insight1_def shared_fields_valid_def AssetTypeInsight_def)
  have a: "Validate insight1 = None"
    using Validate_rules [of insight1] ok by blast
  have "shared_fields_valid insight_no_content"
    by (simp add: insight_no_content_def shared_fields_valid_def AssetTypeInsight_def)
  then have b: "Validate insight_no_content =
      Some (Errorf ''%w: content is required for Insight'' ErrValidation)"
    using Validate_rules [of insight_no_content] by (simp add: insight_no_content_def)
  have c: "Validate chart_wrong_type =
      Some (Errorf ''%w: invalid asset type: expected chart, got insight'' ErrValidation)"
    using Validate_rules [of chart_wrong_type]
    by (simp add: chart_wrong_type_def AssetTypeChart_def)
  have "shared_fields_valid audience_bad_ages"
    by (simp add: audience_bad_ages_def shared_fields_valid_def AssetTypeAudience_def)
  then have d: "Validate audience_bad_ages =
      Some (Errorf ''%w: age_min cannot be greater than age_max'' ErrValidation)"
    using Validate_rules [of audience_bad_ages] by (simp add: audience_bad_ages_def)
  show ?thesis using ok a b c d by simp
qed

section \<open>The Store-backed FindAll path\<close>



end
